theory Spec2Isabelle
  imports Complex_Main
begin

section \<open>Data model\<close>

text \<open>
  The embedding follows \<^verbatim>\<open>src/TraverseSegments.cpp\<close>. A C++ \<^verbatim>\<open>double\<close> (and
  \<^verbatim>\<open>FP_PRECISION\<close>) is modelled by \<^typ>\<open>real\<close>: arithmetic is exact, so rounding, infinities
  and NaN are outside the model. A C++ \<^verbatim>\<open>int\<close> is modelled by \<^typ>\<open>int\<close>; the indices that
  occur are array positions and counts, far from the 32-bit limits. Reading a C++ array
  outside its bounds is undefined behaviour; the model reads a list with \<open>!\<close> and the theorems
  say where the index is in range. Functions and variables keep their names in the source,
  but for \<^verbatim>\<open>kernel\<close> and \<^verbatim>\<open>size\<close>, written \<open>kern\<close> and \<open>sz\<close>, and the fields of the
  structs, prefixed where a plain name would collide.
\<close>

text \<open>The only error the file reports itself: \<^verbatim>\<open>log_printf(ERROR, "Value out of the mesh range ...")\<close>.\<close>

datatype error = MeshRangeError

text \<open>A \<^verbatim>\<open>Material*\<close> is an opaque reference.\<close>

type_synonym material = nat

datatype Point = Point (getX: real) (getY: real) (getZ: real)

text \<open>The \<^verbatim>\<open>segment\<close> struct: \<^verbatim>\<open>_length\<close>, \<^verbatim>\<open>_material\<close>, \<^verbatim>\<open>_region_id\<close>,
  \<^verbatim>\<open>_cmfd_surface_fwd\<close>, \<^verbatim>\<open>_cmfd_surface_bwd\<close>.\<close>

record segment =
  seg_length :: real
  seg_material :: material
  seg_region_id :: int
  seg_cmfd_surface_fwd :: int
  seg_cmfd_surface_bwd :: int

text \<open>A \<^verbatim>\<open>Track\<close> with the members this file reads and writes, named after their getters;
  \<^verbatim>\<open>Track3D\<close> extends it with the polar angle.\<close>

record Track =
  getStart :: Point
  getEnd :: Point
  getPhi :: real
  getSegments :: "segment list"
  getNumSegments :: int
  getAzimIndex :: int
  getXYIndex :: int

record Track3D = Track +
  getTheta :: real

text \<open>An \<^verbatim>\<open>ExtrudedFSR\<close>: \<^verbatim>\<open>_mesh\<close>, \<^verbatim>\<open>_num_fsrs\<close>, \<^verbatim>\<open>_fsr_ids\<close>, \<^verbatim>\<open>_materials\<close>.\<close>

record ExtrudedFSR =
  efsr_mesh :: "real list"
  efsr_num_fsrs :: int
  efsr_fsr_ids :: "int list"
  efsr_materials :: "material list"

text \<open>
  What \<^verbatim>\<open>TraverseSegments\<close> holds or reaches through its track generator and geometry. The
  macro \<^verbatim>\<open>TINY_MOVE\<close> and the functions of \<^verbatim>\<open>Geometry\<close>, \<^verbatim>\<open>Cmfd\<close> and
  \<^verbatim>\<open>TrackGenerator3D\<close> are declared outside this file and are parameters here.
  \<^verbatim>\<open>_global_z_mesh\<close> and \<^verbatim>\<open>getCmfd()\<close> are pointers that may be \<^verbatim>\<open>NULL\<close>; a \<^verbatim>\<open>Cmfd\<close> is
  used only through \<^verbatim>\<open>findCmfdSurfaceOTF(cell, z, surface)\<close>.
\<close>

record env =
  TINY_MOVE :: real
  global_z_mesh :: "real list option"
  mesh_size :: int
  getExtrudedFSR :: "int \<Rightarrow> ExtrudedFSR"
  getCmfd :: "(int \<Rightarrow> real \<Rightarrow> int \<Rightarrow> int) option"
  getCmfdCell :: "int \<Rightarrow> int"
  getZSpacing :: "int \<Rightarrow> int \<Rightarrow> real"
  getTracksPerStack :: "int \<Rightarrow> int \<Rightarrow> int \<Rightarrow> int"
  getNumPolar :: int

text \<open>
  A 3D track is addressed as \<^verbatim>\<open>tracks_3D[a][i][p][z]\<close>. A worker's kernel and its completion
  hook are implemented outside this file; the model keeps the sequence of calls the worker
  makes to them, in order. \<open>Execute\<close> carries the arguments of
  \<^verbatim>\<open>execute(length, material, fsr_id, track_idx, cmfd_surface_fwd, cmfd_surface_bwd)\<close>.
  \<open>OnTrack\<close> carries the track passed to \<^verbatim>\<open>onTrack\<close>; its second argument is always the
  worker's scratch buffer \<^verbatim>\<open>getTemporarySegments(tid, 0)\<close>.
\<close>

type_synonym track_id = "int \<times> int \<times> int \<times> int"

datatype call =
    NewTrack track_id
  | Execute real material int int int int
  | SetDirection bool
  | Post
  | OnTrack track_id

fun is_Execute :: "call \<Rightarrow> bool" where
  "is_Execute (Execute l m r t f b) = True"
| "is_Execute _ = False"

fun is_OnTrack :: "call \<Rightarrow> bool" where
  "is_OnTrack (OnTrack t) = True"
| "is_OnTrack _ = False"

fun is_NewTrack :: "call \<Rightarrow> bool" where
  "is_NewTrack (NewTrack t) = True"
| "is_NewTrack _ = False"

text \<open>The length argument of an \<^verbatim>\<open>execute\<close> call (0 for the other calls).\<close>

fun execute_length :: "call \<Rightarrow> real" where
  "execute_length (Execute l m r t f b) = l"
| "execute_length _ = 0"

text \<open>Modelled from the spec: the kernel's \<^verbatim>\<open>getCount()\<close> is implemented outside this file;
  it "returns segments emitted since the last newRay()".\<close>

definition getCount :: "call list \<Rightarrow> int" where
  "getCount kern = int (length (filter is_Execute (takeWhile (\<lambda>c. \<not> is_NewTrack c) (rev kern))))"

section \<open>Loops\<close>

text \<open>\<^verbatim>\<open>for (int i = lo; i < hi; i++) body\<close> over a state the body updates.\<close>

function for_loop :: "int \<Rightarrow> int \<Rightarrow> (int \<Rightarrow> 'a \<Rightarrow> 'a) \<Rightarrow> 'a \<Rightarrow> 'a" where
  "for_loop i hi body st = (if i < hi then for_loop (i + 1) hi body (body i st) else st)"
  by pat_completeness auto
termination
  by (relation "measure (\<lambda>(i, hi, body, st). nat (hi - i))") auto

declare for_loop.simps [simp del]

section \<open>findMeshIndex\<close>

text \<open>
  The \<^verbatim>\<open>while (imax - imin > 1)\<close> loop of \<^verbatim>\<open>findMeshIndex\<close>. Both indices are non-negative,
  where C++ \<^verbatim>\<open>/\<close> on \<^verbatim>\<open>int\<close> agrees with \<open>div\<close>.
\<close>

function findMeshIndex_search :: "real list \<Rightarrow> real \<Rightarrow> int \<Rightarrow> int \<Rightarrow> int \<Rightarrow> int" where
  "findMeshIndex_search values val sign imin imax =
     (if imax - imin > 1 then
        (let imid = (imin + imax) div 2 in
           if val > values ! nat imid then findMeshIndex_search values val sign imid imax
           else if val < values ! nat imid then findMeshIndex_search values val sign imin imid
           else (if sign > 0 then imid else imid - 1))
      else imin)"
  by pat_completeness auto
termination
  by (relation "measure (\<lambda>(values, val, sign, imin, imax). nat (imax - imin))") auto

declare findMeshIndex_search.simps [simp del]

text \<open>
  \<^verbatim>\<open>findMeshIndex(values, size, val, sign)\<close>. The range check calls
  \<^verbatim>\<open>log_printf(ERROR, ...)\<close>, which is fatal, and is followed by \<^verbatim>\<open>return -1\<close>; both are
  the result \<open>Inl MeshRangeError\<close>.
\<close>

definition findMeshIndex :: "real list \<Rightarrow> int \<Rightarrow> real \<Rightarrow> int \<Rightarrow> error + int" where
  "findMeshIndex values sz val sign =
     (let imin = 0; imax = sz - 1 in
        if val < values ! nat imin \<or> val > values ! nat imax then Inl MeshRangeError
        else Inr (findMeshIndex_search values val sign imin imax))"

section \<open>traceSegmentsOTF\<close>

text \<open>The first loop of \<^verbatim>\<open>traceSegmentsOTF\<close>: skip the 2D segments that lie before the start
  of the 3D track. The result is \<^verbatim>\<open>(start_dist_2D, seg_start)\<close>.\<close>

function traceSegmentsOTF_start :: "segment list \<Rightarrow> int \<Rightarrow> int \<Rightarrow> real \<Rightarrow> int \<Rightarrow> real \<times> int" where
  "traceSegmentsOTF_start segments_2D num_segments s start_dist_2D seg_start =
     (if s < num_segments then
        (let seg_len_2D = seg_length (segments_2D ! nat s) in
           if start_dist_2D > seg_len_2D then
             traceSegmentsOTF_start segments_2D num_segments (s + 1)
               (start_dist_2D - seg_len_2D) (seg_start + 1)
           else (start_dist_2D, seg_start))
      else (start_dist_2D, seg_start))"
  by pat_completeness auto
termination
  by (relation "measure (\<lambda>(segments_2D, num_segments, s, start_dist_2D, seg_start).
                  nat (num_segments - s))") auto

declare traceSegmentsOTF_start.simps [simp del]

text \<open>
  One pass through the body of \<^verbatim>\<open>while (remaining_length_2D > 0)\<close>, up to and including
  \<^verbatim>\<open>z_ind += z_move\<close>. The result is \<^verbatim>\<open>(remaining_length_2D, z_ind, z_coord)\<close> and the kernel.
\<close>

definition traceSegmentsOTF_step ::
  "env \<Rightarrow> segment \<Rightarrow> ExtrudedFSR \<Rightarrow> real list \<Rightarrow> real \<Rightarrow> real \<Rightarrow> int \<Rightarrow>
   real \<Rightarrow> int \<Rightarrow> real \<Rightarrow> call list \<Rightarrow> (real \<times> int \<times> real) \<times> call list" where
  "traceSegmentsOTF_step env seg extruded_FSR axial_mesh cos_theta sin_theta sign
       remaining_length_2D z_ind z_coord kern =
     (let z_dist_3D =
            (if sign > 0 then (axial_mesh ! nat (z_ind + 1) - z_coord) / cos_theta
             else (axial_mesh ! nat z_ind - z_coord) / cos_theta);
          seg_dist_3D = remaining_length_2D / sin_theta;
          (dist_2D, dist_3D, z_move) =
            (if z_dist_3D \<le> seg_dist_3D then (z_dist_3D * sin_theta, z_dist_3D, sign)
             else (remaining_length_2D, seg_dist_3D, 0));
          fsr_id = efsr_fsr_ids extruded_FSR ! nat z_ind;
          (cmfd_surface_fwd, cmfd_surface_bwd, z_coord') =
            (case getCmfd env of
               Some cmfd \<Rightarrow>
                 if dist_3D > TINY_MOVE env then
                   (let cmfd_surface_bwd =
                          (if seg_length seg - remaining_length_2D \<le> TINY_MOVE env
                           then seg_cmfd_surface_bwd seg else - 1);
                        next_dist_3D = (remaining_length_2D - dist_2D) / sin_theta;
                        cmfd_surface_fwd =
                          (if z_move = 0 \<or> next_dist_3D \<le> TINY_MOVE env
                           then seg_cmfd_surface_fwd seg else - 1);
                        cmfd_cell = getCmfdCell env fsr_id;
                        cmfd_surface_bwd = cmfd cmfd_cell z_coord cmfd_surface_bwd;
                        z_coord' = z_coord + cos_theta * dist_3D;
                        cmfd_surface_fwd = cmfd cmfd_cell z_coord' cmfd_surface_fwd
                    in (cmfd_surface_fwd, cmfd_surface_bwd, z_coord'))
                 else (- 1, - 1, z_coord + dist_3D * cos_theta)
             | None \<Rightarrow> (- 1, - 1, z_coord + dist_3D * cos_theta));
          kern' =
            (if dist_3D > TINY_MOVE env
             then kern @ [Execute dist_3D (efsr_materials extruded_FSR ! nat z_ind) fsr_id 0
                            cmfd_surface_fwd cmfd_surface_bwd]
             else kern)
      in ((remaining_length_2D - dist_2D, z_ind + z_move, z_coord'), kern'))"

text \<open>
  The loop \<^verbatim>\<open>while (remaining_length_2D > 0)\<close> with its \<^verbatim>\<open>break\<close> at an axial boundary. The
  result is \<^verbatim>\<open>(z_ind, z_coord, segments_complete)\<close> and the kernel; \<open>None\<close> is a loop
  that does not end.
\<close>

partial_function (option) traceSegmentsOTF_while ::
  "env \<Rightarrow> segment \<Rightarrow> ExtrudedFSR \<Rightarrow> int \<Rightarrow> real list \<Rightarrow> real \<Rightarrow> real \<Rightarrow> int \<Rightarrow>
   real \<Rightarrow> int \<Rightarrow> real \<Rightarrow> call list \<Rightarrow> ((int \<times> real \<times> bool) \<times> call list) option" where
  "traceSegmentsOTF_while env seg extruded_FSR num_fsrs axial_mesh cos_theta sin_theta sign
       remaining_length_2D z_ind z_coord kern =
     (if remaining_length_2D > 0 then
        (case traceSegmentsOTF_step env seg extruded_FSR axial_mesh cos_theta sin_theta sign
                remaining_length_2D z_ind z_coord kern of
           ((remaining_length_2D', z_ind', z_coord'), kern') \<Rightarrow>
             if z_ind' < 0 \<or> z_ind' \<ge> num_fsrs then
               Some ((if z_ind' < 0 then 0 else num_fsrs - 1, z_coord', True), kern')
             else traceSegmentsOTF_while env seg extruded_FSR num_fsrs axial_mesh cos_theta
                    sin_theta sign remaining_length_2D' z_ind' z_coord' kern')
      else Some ((z_ind, z_coord, False), kern))"

text \<open>
  "Determine new mesh and z index" at the head of the loop over 2D segments: on the first
  segment, or with a global z-mesh, the mesh and the index stay; otherwise they come from
  the segment's extruded FSR and \<^verbatim>\<open>findMeshIndex\<close>. The result is
  \<^verbatim>\<open>(num_fsrs, axial_mesh, z_ind)\<close>.
\<close>

definition traceSegmentsOTF_mesh ::
  "ExtrudedFSR \<Rightarrow> bool \<Rightarrow> bool \<Rightarrow> int \<Rightarrow> real \<Rightarrow> int \<Rightarrow> real list \<Rightarrow> int \<Rightarrow>
   error + (int \<times> real list \<times> int)" where
  "traceSegmentsOTF_mesh extruded_FSR first_segment contains_global_z_mesh sign z_coord
       num_fsrs axial_mesh z_ind =
     (if first_segment \<or> contains_global_z_mesh then Inr (num_fsrs, axial_mesh, z_ind)
      else (let num_fsrs = efsr_num_fsrs extruded_FSR;
                axial_mesh = efsr_mesh extruded_FSR
            in case findMeshIndex axial_mesh (num_fsrs + 1) z_coord sign of
                 Inl e \<Rightarrow> Inl e
               | Inr z_ind \<Rightarrow> Inr (num_fsrs, axial_mesh, z_ind)))"

text \<open>
  How a trace of one track ends: all 2D segments were processed; or the axial index left the
  mesh and the loops were left with \<^verbatim>\<open>segments_complete\<close> set; or \<^verbatim>\<open>findMeshIndex\<close>
  reported an error.
\<close>

datatype status = Completed | AxialExit | Failed error

text \<open>
  The loop \<^verbatim>\<open>for (int s=seg_start; s < getNumSegments(); s++)\<close>. The result is the way
  the trace ended and the kernel as it is then.
\<close>

function traceSegmentsOTF_segments ::
  "env \<Rightarrow> segment list \<Rightarrow> int \<Rightarrow> bool \<Rightarrow> real \<Rightarrow> real \<Rightarrow> int \<Rightarrow>
   int \<Rightarrow> bool \<Rightarrow> int \<Rightarrow> real list \<Rightarrow> int \<Rightarrow> real \<Rightarrow> real \<Rightarrow> call list \<Rightarrow>
   (status \<times> call list) option" where
  "traceSegmentsOTF_segments env segments_2D num_segments contains_global_z_mesh
       cos_theta sin_theta sign s first_segment num_fsrs axial_mesh z_ind z_coord
       start_dist_2D kern =
     (if s < num_segments then
        (case traceSegmentsOTF_mesh (getExtrudedFSR env (seg_region_id (segments_2D ! nat s)))
                first_segment contains_global_z_mesh sign z_coord num_fsrs axial_mesh z_ind of
           Inl e \<Rightarrow> Some (Failed e, kern)
         | Inr (num_fsrs, axial_mesh, z_ind) \<Rightarrow>
             (case traceSegmentsOTF_while env (segments_2D ! nat s)
                     (getExtrudedFSR env (seg_region_id (segments_2D ! nat s)))
                     num_fsrs axial_mesh cos_theta sin_theta sign
                     (seg_length (segments_2D ! nat s) - start_dist_2D) z_ind z_coord kern of
                None \<Rightarrow> None
              | Some ((z_ind, z_coord, segments_complete), kern) \<Rightarrow>
                  if segments_complete then Some (AxialExit, kern)
                  else traceSegmentsOTF_segments env segments_2D num_segments
                         contains_global_z_mesh cos_theta sin_theta sign (s + 1) False
                         num_fsrs axial_mesh z_ind z_coord 0 kern))
      else Some (Completed, kern))"
  by pat_completeness auto
termination
  by (relation "measure (\<lambda>(env, segments_2D, num_segments, contains_global_z_mesh, cos_theta,
                  sin_theta, sign, s, rest). nat (num_segments - s))") auto

declare traceSegmentsOTF_segments.simps [simp del]

text \<open>\<^verbatim>\<open>traceSegmentsOTF(flattened_track, start, theta, kernel)\<close>.\<close>

definition traceSegmentsOTF ::
  "env \<Rightarrow> Track \<Rightarrow> Point \<Rightarrow> real \<Rightarrow> call list \<Rightarrow> (status \<times> call list) option" where
  "traceSegmentsOTF env flattened_track start theta kern =
     (let phi = getPhi flattened_track;
          cos_theta = cos theta;
          sin_theta = sin theta;
          sign = (if cos_theta > 0 then 1 else 0) - (if cos_theta < 0 then 1 else (0::int));
          x_start_3D = getX start;
          x_start_2D = getX (getStart flattened_track);
          z_coord = getZ start;
          start_dist_2D = (x_start_3D - x_start_2D) / cos phi;
          segments_2D = getSegments flattened_track;
          (start_dist_2D, seg_start) =
            traceSegmentsOTF_start segments_2D (getNumSegments flattened_track) 0 start_dist_2D 0;
          (contains_global_z_mesh, num_fsrs, axial_mesh) =
            (case global_z_mesh env of
               Some mesh \<Rightarrow> (True, mesh_size env, mesh)
             | None \<Rightarrow>
                 (let extruded_fsr_id = seg_region_id (segments_2D ! nat seg_start);
                      extruded_FSR = getExtrudedFSR env extruded_fsr_id
                  in (False, efsr_num_fsrs extruded_FSR, efsr_mesh extruded_FSR)))
      in case findMeshIndex axial_mesh (num_fsrs + 1) z_coord sign of
           Inl e \<Rightarrow> Some (Failed e, kern)
         | Inr z_ind \<Rightarrow>
             traceSegmentsOTF_segments env segments_2D (getNumSegments flattened_track)
               contains_global_z_mesh cos_theta sin_theta sign seg_start True num_fsrs axial_mesh
               z_ind z_coord start_dist_2D kern)"

section \<open>traceStackOTF\<close>

text \<open>
  The z-stack indexes that cross one axial cell \<^verbatim>\<open>[z_min, z_max]\<close>:
  \<^verbatim>\<open>(start_track, start_full, end_full, end_track)\<close>, after the bounds check on the first and
  the last. \<^verbatim>\<open>std::ceil\<close> followed by the conversion to \<^verbatim>\<open>int\<close> is the ceiling.
\<close>

definition traceStackOTF_ranges ::
  "real \<Rightarrow> real \<Rightarrow> real \<Rightarrow> real \<Rightarrow> real \<Rightarrow> int \<Rightarrow> int \<times> int \<times> int \<times> int" where
  "traceStackOTF_ranges z_min z_max first_track_lower_z first_track_upper_z z_spacing num_z_stack =
     (let start_track = \<lceil>(z_min - first_track_upper_z) / z_spacing\<rceil>;
          start_full = \<lceil>(z_min - first_track_lower_z) / z_spacing\<rceil>;
          end_full = \<lceil>(z_max - first_track_upper_z) / z_spacing\<rceil>;
          end_track = \<lceil>(z_max - first_track_lower_z) / z_spacing\<rceil>;
          start_track = max start_track 0;
          end_track = min end_track num_z_stack
      in (start_track, start_full, end_full, end_track))"

text \<open>Body of the loop over the lower tracks that do not cross the entire 2D length,
  \<^verbatim>\<open>for (int i = start_track; i < min_lower; i++)\<close>.\<close>

definition traceStackOTF_lower ::
  "env \<Rightarrow> segment \<Rightarrow> material \<Rightarrow> int \<Rightarrow> int \<Rightarrow> real \<Rightarrow> real \<Rightarrow> real \<Rightarrow>
   real \<Rightarrow> real \<Rightarrow> real \<Rightarrow> real \<Rightarrow> int \<Rightarrow> call list \<Rightarrow> call list" where
  "traceStackOTF_lower env seg material fsr_id sign cos_theta z_spacing track_spacing_3D
       z_min first_track_lower_z first_track_upper_z first_seg_len_3D i kernels =
     (let seg_len_3D = first_seg_len_3D + real_of_int i * track_spacing_3D in
        if seg_len_3D > TINY_MOVE env then
          (let (cmfd_surface_fwd, cmfd_surface_bwd) =
                 (case getCmfd env of
                    None \<Rightarrow> (- 1, - 1)
                  | Some cmfd \<Rightarrow>
                      (let cmfd_cell = getCmfdCell env fsr_id;
                           start_z = first_track_lower_z + real_of_int i * z_spacing;
                           end_z = first_track_upper_z + real_of_int i * z_spacing;
                           dist_to_corner = \<bar>(z_min - start_z) / cos_theta\<bar>
                       in if sign > 0 then
                            (let cmfd_surface_fwd = cmfd cmfd_cell end_z (seg_cmfd_surface_fwd seg);
                                 cmfd_surface_bwd =
                                   cmfd cmfd_cell z_min
                                     (if dist_to_corner \<le> TINY_MOVE env
                                      then seg_cmfd_surface_bwd seg else - 1)
                             in (cmfd_surface_fwd, cmfd_surface_bwd))
                          else
                            (let cmfd_surface_fwd =
                                   cmfd cmfd_cell z_min
                                     (if dist_to_corner \<le> TINY_MOVE env
                                      then seg_cmfd_surface_fwd seg else - 1);
                                 cmfd_surface_bwd = cmfd cmfd_cell end_z (seg_cmfd_surface_bwd seg)
                             in (cmfd_surface_fwd, cmfd_surface_bwd))))
           in kernels @ [Execute seg_len_3D material fsr_id i cmfd_surface_fwd cmfd_surface_bwd])
        else kernels)"

text \<open>Body of the loop over the tracks that cross the entire 2D length,
  \<^verbatim>\<open>for (int i = start_full; i < end_full; i++)\<close>.\<close>

definition traceStackOTF_full ::
  "env \<Rightarrow> segment \<Rightarrow> material \<Rightarrow> int \<Rightarrow> real \<Rightarrow> real \<Rightarrow> real \<Rightarrow> real \<Rightarrow>
   int \<Rightarrow> call list \<Rightarrow> call list" where
  "traceStackOTF_full env seg material fsr_id z_spacing first_start_z first_end_z seg_len_3D
       i kernels =
     (let cmfd_surface_fwd = seg_cmfd_surface_fwd seg;
          cmfd_surface_bwd = seg_cmfd_surface_bwd seg;
          (cmfd_surface_fwd, cmfd_surface_bwd) =
            (case getCmfd env of
               None \<Rightarrow> (cmfd_surface_fwd, cmfd_surface_bwd)
             | Some cmfd \<Rightarrow>
                 (let cmfd_cell = getCmfdCell env fsr_id;
                      start_z = first_start_z + real_of_int i * z_spacing;
                      end_z = first_end_z + real_of_int i * z_spacing
                  in (cmfd cmfd_cell end_z cmfd_surface_fwd,
                      cmfd cmfd_cell start_z cmfd_surface_bwd)))
      in kernels @ [Execute seg_len_3D material fsr_id i cmfd_surface_fwd cmfd_surface_bwd])"

text \<open>Body of the loop over the tracks that cross both the upper and the lower axial boundary,
  \<^verbatim>\<open>for (int i = end_full; i < start_full; i++)\<close>.\<close>

definition traceStackOTF_both ::
  "env \<Rightarrow> segment \<Rightarrow> material \<Rightarrow> int \<Rightarrow> int \<Rightarrow> real \<Rightarrow> real \<Rightarrow> real \<Rightarrow> real \<Rightarrow>
   real \<Rightarrow> real \<Rightarrow> real \<Rightarrow> int \<Rightarrow> call list \<Rightarrow> call list" where
  "traceStackOTF_both env seg material fsr_id sign cos_theta z_spacing z_min z_max
       first_start_z first_end_z seg_len_3D i kernels =
     (let (cmfd_surface_fwd, cmfd_surface_bwd) =
            (case getCmfd env of
               None \<Rightarrow> (- 1, - 1)
             | Some cmfd \<Rightarrow>
                 (let cmfd_cell = getCmfdCell env fsr_id;
                      (enter_z, exit_z) = (if sign > 0 then (z_min, z_max) else (z_max, z_min));
                      track_end_z = first_end_z + real_of_int i * z_spacing;
                      dist_to_corner = (track_end_z - exit_z) / cos_theta;
                      cmfd_surface_fwd =
                        (if dist_to_corner \<le> TINY_MOVE env then seg_cmfd_surface_fwd seg else - 1);
                      track_start_z = first_start_z + real_of_int i * z_spacing;
                      dist_to_corner = (enter_z - track_start_z) / cos_theta;
                      cmfd_surface_bwd =
                        (if dist_to_corner \<le> TINY_MOVE env then seg_cmfd_surface_bwd seg else - 1)
                  in (cmfd cmfd_cell exit_z cmfd_surface_fwd,
                      cmfd cmfd_cell enter_z cmfd_surface_bwd)))
      in kernels @ [Execute seg_len_3D material fsr_id i cmfd_surface_fwd cmfd_surface_bwd])"

text \<open>Body of the loop over the upper tracks that do not cross the entire 2D length,
  \<^verbatim>\<open>for (int i = min_upper; i < end_track; i++)\<close>.\<close>

definition traceStackOTF_upper ::
  "env \<Rightarrow> segment \<Rightarrow> material \<Rightarrow> int \<Rightarrow> int \<Rightarrow> real \<Rightarrow> real \<Rightarrow> real \<Rightarrow>
   real \<Rightarrow> real \<Rightarrow> real \<Rightarrow> real \<Rightarrow> int \<Rightarrow> call list \<Rightarrow> call list" where
  "traceStackOTF_upper env seg material fsr_id sign cos_theta z_spacing track_spacing_3D
       z_max first_track_lower_z first_track_upper_z first_seg_len_3D i kernels =
     (let seg_len_3D = first_seg_len_3D - real_of_int i * track_spacing_3D in
        if seg_len_3D > TINY_MOVE env then
          (let (cmfd_surface_fwd, cmfd_surface_bwd) =
                 (case getCmfd env of
                    None \<Rightarrow> (- 1, - 1)
                  | Some cmfd \<Rightarrow>
                      (let cmfd_cell = getCmfdCell env fsr_id;
                           start_z = first_track_lower_z + real_of_int i * z_spacing;
                           end_z = first_track_upper_z + real_of_int i * z_spacing;
                           dist_to_corner = (end_z - z_max) / \<bar>cos_theta\<bar>
                       in if sign > 0 then
                            (let cmfd_surface_fwd =
                                   cmfd cmfd_cell z_max
                                     (if dist_to_corner \<le> TINY_MOVE env
                                      then seg_cmfd_surface_fwd seg else - 1);
                                 cmfd_surface_bwd = cmfd cmfd_cell start_z (seg_cmfd_surface_bwd seg)
                             in (cmfd_surface_fwd, cmfd_surface_bwd))
                          else
                            (let cmfd_surface_fwd = cmfd cmfd_cell start_z (seg_cmfd_surface_fwd seg);
                                 cmfd_surface_bwd =
                                   cmfd cmfd_cell z_max
                                     (if dist_to_corner \<le> TINY_MOVE env
                                      then seg_cmfd_surface_bwd seg else - 1)
                             in (cmfd_surface_fwd, cmfd_surface_bwd))))
           in kernels @ [Execute seg_len_3D material fsr_id i cmfd_surface_fwd cmfd_surface_bwd])
        else kernels)"

text \<open>Body of \<^verbatim>\<open>for (int z_iter = 0; z_iter < num_fsrs; z_iter++)\<close>: one 3D FSR of the
  extruded FSR against the whole stack.\<close>

definition traceStackOTF_cell ::
  "env \<Rightarrow> segment \<Rightarrow> ExtrudedFSR \<Rightarrow> int \<Rightarrow> real list \<Rightarrow> int \<Rightarrow> real \<Rightarrow> int \<Rightarrow> real \<Rightarrow>
   real \<Rightarrow> real \<Rightarrow> real \<Rightarrow> real \<Rightarrow> real \<Rightarrow> real \<Rightarrow> int \<Rightarrow> call list \<Rightarrow> call list" where
  "traceStackOTF_cell env seg extruded_FSR num_fsrs axial_mesh num_z_stack z_spacing sign
       cos_theta sin_theta track_spacing_3D first_start_z first_end_z first_track_lower_z
       first_track_upper_z z_iter kernels =
     (let seg_length_2D = seg_length seg;
          z_ind = (if sign < 0 then num_fsrs - z_iter - 1 else z_iter);
          fsr_id = efsr_fsr_ids extruded_FSR ! nat z_ind;
          material = efsr_materials extruded_FSR ! nat z_ind;
          z_min = axial_mesh ! nat z_ind;
          z_max = axial_mesh ! nat (z_ind + 1);
          (start_track, start_full, end_full, end_track) =
            traceStackOTF_ranges z_min z_max first_track_lower_z first_track_upper_z z_spacing
              num_z_stack;
          min_lower = min start_full end_full;
          first_seg_len_3D = (first_track_upper_z - z_min) / \<bar>cos_theta\<bar>;
          kernels =
            for_loop start_track min_lower
              (traceStackOTF_lower env seg material fsr_id sign cos_theta z_spacing
                 track_spacing_3D z_min first_track_lower_z first_track_upper_z first_seg_len_3D)
              kernels;
          kernels =
            (if end_full > start_full then
               (let seg_len_3D = seg_length_2D / sin_theta in
                  if seg_len_3D > TINY_MOVE env then
                    for_loop start_full end_full
                      (traceStackOTF_full env seg material fsr_id z_spacing first_start_z
                         first_end_z seg_len_3D)
                      kernels
                  else kernels)
             else if start_full > end_full then
               (let seg_len_3D = (z_max - z_min) / \<bar>cos_theta\<bar> in
                  if seg_len_3D > TINY_MOVE env then
                    for_loop end_full start_full
                      (traceStackOTF_both env seg material fsr_id sign cos_theta z_spacing z_min
                         z_max first_start_z first_end_z seg_len_3D)
                      kernels
                  else kernels)
             else kernels);
          min_upper = max start_full end_full;
          first_seg_len_3D = (z_max - first_track_lower_z) / \<bar>cos_theta\<bar>
      in for_loop min_upper end_track
           (traceStackOTF_upper env seg material fsr_id sign cos_theta z_spacing track_spacing_3D
              z_max first_track_lower_z first_track_upper_z first_seg_len_3D)
           kernels)"

text \<open>Body of \<^verbatim>\<open>for (int s=0; s < getNumSegments(); s++)\<close>; the state is
  \<^verbatim>\<open>first_start_z\<close> and the kernel.\<close>

definition traceStackOTF_segment ::
  "env \<Rightarrow> segment list \<Rightarrow> int \<Rightarrow> real \<Rightarrow> int \<Rightarrow> real \<Rightarrow> real \<Rightarrow> real \<Rightarrow> real \<Rightarrow>
   int \<Rightarrow> real \<times> call list \<Rightarrow> real \<times> call list" where
  "traceStackOTF_segment env segments_2D num_z_stack z_spacing sign cos_theta sin_theta tan_theta
       track_spacing_3D s st =
     (case st of (first_start_z, kernels) \<Rightarrow>
        (let seg = segments_2D ! nat s;
             seg_length_2D = seg_length seg;
             extruded_fsr_id = seg_region_id seg;
             extruded_FSR = getExtrudedFSR env extruded_fsr_id;
             (num_fsrs, axial_mesh) =
               (case global_z_mesh env of
                  Some mesh \<Rightarrow> (mesh_size env, mesh)
                | None \<Rightarrow> (efsr_num_fsrs extruded_FSR, efsr_mesh extruded_FSR));
             first_end_z = first_start_z + seg_length_2D / tan_theta;
             (first_track_lower_z, first_track_upper_z) =
               (if sign > 0 then (first_start_z, first_end_z) else (first_end_z, first_start_z));
             kernels =
               for_loop 0 num_fsrs
                 (traceStackOTF_cell env seg extruded_FSR num_fsrs axial_mesh num_z_stack z_spacing
                    sign cos_theta sin_theta track_spacing_3D first_start_z first_end_z
                    first_track_lower_z first_track_upper_z)
                 kernels
         in (first_end_z, kernels)))"

text \<open>\<^verbatim>\<open>traceStackOTF(flattened_track, polar_index, kernels)\<close>. \<open>first\<close> is
  \<^verbatim>\<open>tracks_3D[azim_index][track_index][polar_index][0]\<close>; only \<^verbatim>\<open>kernels[0]\<close> is called.\<close>

definition traceStackOTF :: "env \<Rightarrow> Track \<Rightarrow> Track3D \<Rightarrow> int \<Rightarrow> call list \<Rightarrow> call list" where
  "traceStackOTF env flattened_track first polar_index kernels =
     (let azim_index = getAzimIndex flattened_track;
          track_index = getXYIndex flattened_track;
          num_z_stack = getTracksPerStack env azim_index track_index polar_index;
          theta = getTheta first;
          z_spacing = getZSpacing env azim_index polar_index;
          phi = getPhi flattened_track;
          cos_theta = cos theta;
          sin_theta = sin theta;
          tan_theta = sin_theta / cos_theta;
          sign = (if cos_theta > 0 then 1 else 0) - (if cos_theta < 0 then 1 else (0::int));
          track_spacing_3D = z_spacing / \<bar>cos_theta\<bar>;
          x_start_3D = getX (getStart first);
          x_start_2D = getX (getStart flattened_track);
          start_dist_2D = (x_start_3D - x_start_2D) / cos phi;
          z0 = getZ (getStart first);
          start_z = z0 - start_dist_2D / tan_theta;
          first_start_z = start_z;
          segments_2D = getSegments flattened_track
      in snd (for_loop 0 (getNumSegments flattened_track)
                (traceStackOTF_segment env segments_2D num_z_stack z_spacing sign cos_theta
                   sin_theta tan_theta track_spacing_3D)
                (first_start_z, kernels)))"

section \<open>traceStackTwoWay\<close>

text \<open>The two loops that reverse the segments of the flattened track in place and flip the
  CMFD surfaces of each.\<close>

definition reverse_segments :: "int \<Rightarrow> segment list \<Rightarrow> segment list" where
  "reverse_segments num_segments segments =
     for_loop 0 (num_segments div 2)
       (\<lambda>s segments.
          (let tmp_segment = segments ! nat (num_segments - s - 1);
               segments = segments[nat (num_segments - s - 1) := segments ! nat s]
           in segments[nat s := tmp_segment]))
       segments"

definition flip_surfaces :: "int \<Rightarrow> segment list \<Rightarrow> segment list" where
  "flip_surfaces num_segments segments =
     for_loop 0 num_segments
       (\<lambda>s segments.
          (let tmp_surface = seg_cmfd_surface_fwd (segments ! nat s);
               segments = segments[nat s := (segments ! nat s)
                  \<lparr>seg_cmfd_surface_fwd := seg_cmfd_surface_bwd (segments ! nat s)\<rparr>]
           in segments[nat s := (segments ! nat s)\<lparr>seg_cmfd_surface_bwd := tmp_surface\<rparr>]))
       segments"

text \<open>
  \<^verbatim>\<open>traceStackTwoWay(flattened_track, polar_index, kernel)\<close>. The function writes to the
  flattened track and to the first track of the stack, so both are returned with the kernel.
\<close>

definition traceStackTwoWay ::
  "env \<Rightarrow> Track \<Rightarrow> Track3D \<Rightarrow> int \<Rightarrow> call list \<Rightarrow> Track \<times> Track3D \<times> call list" where
  "traceStackTwoWay env flattened_track first polar_index kern =
     (let start_2D = getStart flattened_track;
          end_2D = getEnd flattened_track;
          start_3D = getStart first;
          end_3D = getEnd first;
          phi = getPhi flattened_track;
          theta = getTheta first;
          kern = kern @ [SetDirection True];
          kern = traceStackOTF env flattened_track first polar_index kern;
          kern = kern @ [Post];
          first = first\<lparr>getStart := end_3D, getEnd := start_3D, getTheta := pi - theta\<rparr>;
          flattened_track =
            flattened_track\<lparr>getStart := end_2D, getEnd := start_2D, getPhi := pi + phi\<rparr>;
          num_segments = getNumSegments flattened_track;
          flattened_track = flattened_track
            \<lparr>getSegments := reverse_segments num_segments (getSegments flattened_track)\<rparr>;
          flattened_track = flattened_track
            \<lparr>getSegments := flip_surfaces num_segments (getSegments flattened_track)\<rparr>;
          kern = kern @ [SetDirection False];
          kern = traceStackOTF env flattened_track first polar_index kern;
          kern = kern @ [Post];
          first = first\<lparr>getStart := start_3D, getEnd := end_3D, getTheta := theta\<rparr>;
          flattened_track =
            flattened_track\<lparr>getStart := start_2D, getEnd := end_2D, getPhi := phi\<rparr>;
          flattened_track = flattened_track
            \<lparr>getSegments := reverse_segments num_segments (getSegments flattened_track)\<rparr>;
          flattened_track = flattened_track
            \<lparr>getSegments := flip_surfaces num_segments (getSegments flattened_track)\<rparr>
      in (flattened_track, first, kern))"

section \<open>loopOverTracksByStackOTF\<close>

text \<open>
  One worker running \<^verbatim>\<open>loopOverTracksByStackOTF(kernels)\<close> over all flattened tracks (the
  \<^verbatim>\<open>omp for\<close> gives each worker a part of them). \<open>kernels\<close> says whether the argument is
  not \<^verbatim>\<open>NULL\<close>. The state is the array \<^verbatim>\<open>tracks_3D\<close> and the calls made so far.
\<close>

definition loopOverTracksByStackOTF_polar ::
  "env \<Rightarrow> bool \<Rightarrow> Track \<Rightarrow> int \<Rightarrow> (track_id \<Rightarrow> Track3D) \<times> call list \<Rightarrow>
   (track_id \<Rightarrow> Track3D) \<times> call list" where
  "loopOverTracksByStackOTF_polar env kernels flattened_track p st =
     (case st of (tracks_3D, calls) \<Rightarrow>
        (let a = getAzimIndex flattened_track;
             i = getXYIndex flattened_track;
             track_3D = (a, i, p, 0);
             (tracks_3D, calls) =
               (if kernels then
                  (let calls = calls @ [NewTrack track_3D];
                       calls = traceStackOTF env flattened_track (tracks_3D track_3D) p calls;
                       tracks_3D = tracks_3D
                         (track_3D := (tracks_3D track_3D)\<lparr>getNumSegments := getCount calls\<rparr>)
                   in (tracks_3D, calls))
                else (tracks_3D, calls))
         in (tracks_3D, calls @ [OnTrack track_3D])))"

definition loopOverTracksByStackOTF ::
  "env \<Rightarrow> int \<Rightarrow> Track list \<Rightarrow> bool \<Rightarrow> (track_id \<Rightarrow> Track3D) \<times> call list \<Rightarrow>
   (track_id \<Rightarrow> Track3D) \<times> call list" where
  "loopOverTracksByStackOTF env num_2D_tracks flattened_tracks kernels st =
     for_loop 0 num_2D_tracks
       (\<lambda>ext_id st.
          (let flattened_track = flattened_tracks ! nat ext_id
           in for_loop 0 (getNumPolar env)
                (loopOverTracksByStackOTF_polar env kernels flattened_track) st))
       st"

section \<open>Auxiliary definitions\<close>

text \<open>A kernel has received nothing but \<^verbatim>\<open>execute\<close> calls with a length above
  \<^verbatim>\<open>TINY_MOVE\<close> since it was \<open>kern\<close>.\<close>

definition appends_long :: "env \<Rightarrow> call list \<Rightarrow> call list \<Rightarrow> bool" where
  "appends_long env kern kern' =
     (\<exists>new. kern' = kern @ new \<and>
            (\<forall>c \<in> set new. is_Execute c \<and> TINY_MOVE env < execute_length c))"

text \<open>A segment with its forward and backward CMFD surfaces exchanged.\<close>

definition flip_segment :: "segment \<Rightarrow> segment" where
  "flip_segment seg = seg\<lparr>seg_cmfd_surface_fwd := seg_cmfd_surface_bwd seg,
                           seg_cmfd_surface_bwd := seg_cmfd_surface_fwd seg\<rparr>"

text \<open>
  A small geometry for concrete runs: one extruded FSR with the axial mesh \<open>[0, 1, 2]\<close>, used
  as the global mesh too; no CMFD; stacks of four tracks one unit apart; \<^verbatim>\<open>TINY_MOVE\<close> is
  \<open>10\<^sup>-\<^sup>8\<close>. The flattened track has one segment of length 2; the polar angle has cosine 4/5
  and sine 3/5.
\<close>

definition ex_fsr :: ExtrudedFSR where
  "ex_fsr = \<lparr>efsr_mesh = [0, 1, 2], efsr_num_fsrs = 2, efsr_fsr_ids = [10, 11],
             efsr_materials = [0, 1]\<rparr>"

definition ex_env :: env where
  "ex_env = \<lparr>TINY_MOVE = 1 / 10 ^ 8, global_z_mesh = Some [0, 1, 2], mesh_size = 2,
     getExtrudedFSR = (\<lambda>_. ex_fsr), getCmfd = None, getCmfdCell = (\<lambda>_. 0),
     getZSpacing = (\<lambda>_ _. 1), getTracksPerStack = (\<lambda>_ _ _. 4), getNumPolar = 1\<rparr>"

definition ex_track :: Track where
  "ex_track = \<lparr>getStart = Point 0 0 0, getEnd = Point 2 0 0, getPhi = 0,
     getSegments = [\<lparr>seg_length = 2, seg_material = 0, seg_region_id = 0,
                     seg_cmfd_surface_fwd = 5, seg_cmfd_surface_bwd = 7\<rparr>],
     getNumSegments = 1, getAzimIndex = 0, getXYIndex = 0\<rparr>"

definition ex_theta :: real where
  "ex_theta = arccos (4 / 5)"

definition ex_first :: Track3D where
  "ex_first = \<lparr>getStart = Point 0 0 (- 2), getEnd = Point 2 0 (2 / 3), getPhi = 0,
     getSegments = [], getNumSegments = 0, getAzimIndex = 0, getXYIndex = 0,
     getTheta = ex_theta\<rparr>"

text \<open>The total of the lengths passed to \<^verbatim>\<open>execute\<close>.\<close>

definition sum_lengths :: "call list \<Rightarrow> real" where
  "sum_lengths kern = sum_list (map execute_length kern)"

text \<open>The axial position \<open>z_coord\<close> lies in the mesh cell with index \<open>z_ind\<close>.\<close>

definition in_cell :: "real list \<Rightarrow> int \<Rightarrow> int \<Rightarrow> real \<Rightarrow> bool" where
  "in_cell axial_mesh num_fsrs z_ind z_coord =
     (0 \<le> z_ind \<and> z_ind < num_fsrs \<and>
      axial_mesh ! nat z_ind \<le> z_coord \<and> z_coord \<le> axial_mesh ! nat (z_ind + 1))"

text \<open>An axial mesh of \<open>num_fsrs\<close> cells: strictly increasing boundaries, one more than
  cells.\<close>

definition mesh_ok :: "real list \<Rightarrow> int \<Rightarrow> bool" where
  "mesh_ok axial_mesh num_fsrs =
     (sorted_wrt (<) axial_mesh \<and> length axial_mesh = nat (num_fsrs + 1) \<and> 1 \<le> num_fsrs)"

text \<open>Flattened tracks with short segments: one segment of length \<open>9 \<cdot> 10\<^sup>-\<^sup>9\<close>, and three
  segments of length \<open>3 \<cdot> 10\<^sup>-\<^sup>9\<close> each.\<close>

definition ex_short_track :: Track where
  "ex_short_track = ex_track\<lparr>getEnd := Point (9 / 10 ^ 9) 0 0,
     getSegments := [\<lparr>seg_length = 9 / 10 ^ 9, seg_material = 0, seg_region_id = 0,
                      seg_cmfd_surface_fwd = 5, seg_cmfd_surface_bwd = 7\<rparr>]\<rparr>"

definition ex_tiny_segment :: segment where
  "ex_tiny_segment = \<lparr>seg_length = 3 / 10 ^ 9, seg_material = 0, seg_region_id = 0,
                       seg_cmfd_surface_fwd = - 1, seg_cmfd_surface_bwd = - 1\<rparr>"




text \<open>The stack index \<open>track_id\<close> of an \<^verbatim>\<open>execute\<close> call (\<open>-1\<close> for the other calls).\<close>

fun execute_track :: "call \<Rightarrow> int" where
  "execute_track (Execute l m r t f b) = t"
| "execute_track _ = - 1"

text \<open>What one pass of a loop over the tracks of a z-stack may add for the stack index \<open>i\<close>:
  nothing, or one \<^verbatim>\<open>execute\<close> call for the track \<open>i\<close>.\<close>

definition one_for_track :: "int \<Rightarrow> call list \<Rightarrow> bool" where
  "one_for_track i calls = (calls = [] \<or> (\<exists>l m r f b. calls = [Execute l m r i f b]))"

section \<open>Properties of findMeshIndex\<close>

text \<open>The binary search keeps the query value between the two boundaries it has narrowed
  down to, and answers with the lower index of a cell that contains the value.\<close>

lemma search_bracket:
  "sorted_wrt (<) vals \<Longrightarrow> 0 \<le> imin \<Longrightarrow> imin < imax \<Longrightarrow> imax < int (length vals) \<Longrightarrow>
   vals ! nat imin \<le> val \<Longrightarrow> val \<le> vals ! nat imax \<Longrightarrow>
   imin \<le> findMeshIndex_search vals val sign imin imax \<and>
   findMeshIndex_search vals val sign imin imax < imax \<and>
   vals ! nat (findMeshIndex_search vals val sign imin imax) \<le> val \<and>
   val \<le> vals ! nat (findMeshIndex_search vals val sign imin imax + 1)"
proof (induction vals val sign imin imax rule: findMeshIndex_search.induct)
  case (1 vals val sign imin imax)
  show ?case
  proof (cases "imax - imin > 1")
    case False
    with "1.prems"(3) have eq: "imax = imin + 1" by simp
    have "findMeshIndex_search vals val sign imin imax = imin"
      using False by (subst findMeshIndex_search.simps) simp
    with "1.prems" eq show ?thesis by simp
  next
    case True
    define imid where "imid = (imin + imax) div 2"
    have mid: "imin < imid" "imid < imax" using True by (auto simp: imid_def)
    consider (up) "val > vals ! nat imid" | (down) "val < vals ! nat imid"
      | (hit) "val = vals ! nat imid" by linarith
    then show ?thesis
    proof cases
      case up
      have step: "findMeshIndex_search vals val sign imin imax =
                  findMeshIndex_search vals val sign imid imax"
        using True up by (subst findMeshIndex_search.simps) (simp add: imid_def Let_def)
      have "imid \<le> findMeshIndex_search vals val sign imid imax \<and>
            findMeshIndex_search vals val sign imid imax < imax \<and>
            vals ! nat (findMeshIndex_search vals val sign imid imax) \<le> val \<and>
            val \<le> vals ! nat (findMeshIndex_search vals val sign imid imax + 1)"
        using "1.IH"(1)[OF True imid_def up] "1.prems" mid up by simp
      with step mid show ?thesis by simp
    next
      case down
      have step: "findMeshIndex_search vals val sign imin imax =
                  findMeshIndex_search vals val sign imin imid"
        using True down by (subst findMeshIndex_search.simps) (simp add: imid_def Let_def)
      have "imin \<le> findMeshIndex_search vals val sign imin imid \<and>
            findMeshIndex_search vals val sign imin imid < imid \<and>
            vals ! nat (findMeshIndex_search vals val sign imin imid) \<le> val \<and>
            val \<le> vals ! nat (findMeshIndex_search vals val sign imin imid + 1)"
        using "1.IH"(2)[OF True imid_def _ down] "1.prems" mid down by simp
      with step mid show ?thesis by simp
    next
      case hit
      have step: "findMeshIndex_search vals val sign imin imax =
                  (if sign > 0 then imid else imid - 1)"
        using True hit by (subst findMeshIndex_search.simps) (simp add: imid_def Let_def)
      have lo: "vals ! nat (imid - 1) < vals ! nat imid"
        using sorted_wrt_nth_less[OF "1.prems"(1), of "nat (imid - 1)" "nat imid"] mid "1.prems" by simp
      have hi: "vals ! nat imid < vals ! nat (imid + 1)"
        using sorted_wrt_nth_less[OF "1.prems"(1), of "nat imid" "nat (imid + 1)"] mid "1.prems" by simp
      show ?thesis using step mid lo hi hit by auto
    qed
  qed
qed


lemma strict_nth_less_iff:
  assumes "sorted_wrt (<) (vals :: real list)" "a < length vals" "b < length vals"
  shows "(vals ! a < vals ! b) = (a < b)"
proof
  assume lt: "vals ! a < vals ! b"
  show "a < b"
  proof (rule ccontr)
    assume "\<not> a < b"
    then consider "a = b" | "b < a" by linarith
    then show False
    proof cases
      case 1 with lt show False by simp
    next
      case 2
      from sorted_wrt_nth_less[OF assms(1) 2 assms(2)] lt show False by simp
    qed
  qed
next
  assume "a < b"
  from sorted_wrt_nth_less[OF assms(1) this assms(3)] show "vals ! a < vals ! b" .
qed

lemma search_tie:
  "sorted_wrt (<) vals \<Longrightarrow> 0 \<le> imin \<Longrightarrow> imax < int (length vals) \<Longrightarrow> imin < k \<Longrightarrow> k < imax \<Longrightarrow>
   val = vals ! nat k \<Longrightarrow>
   findMeshIndex_search vals val sign imin imax = (if sign > 0 then k else k - 1)"
proof (induction vals val sign imin imax rule: findMeshIndex_search.induct)
  case (1 vals val sign imin imax)
  have gap: "imax - imin > 1" using "1.prems" by simp
  define imid where "imid = (imin + imax) div 2"
  have mid: "imin < imid" "imid < imax" using gap by (auto simp: imid_def)
  have cmp: "(vals ! nat imid < vals ! nat k) = (imid < k)"
            "(vals ! nat k < vals ! nat imid) = (k < imid)"
    using strict_nth_less_iff[OF "1.prems"(1), of "nat imid" "nat k"]
          strict_nth_less_iff[OF "1.prems"(1), of "nat k" "nat imid"] mid "1.prems" by auto
  consider (up) "imid < k" | (down) "k < imid" | (hit) "imid = k" by linarith
  then show ?case
  proof cases
    case up
    then have gt: "val > vals ! nat imid" using cmp "1.prems"(6) by simp
    have "findMeshIndex_search vals val sign imin imax =
          findMeshIndex_search vals val sign imid imax"
      using gap gt by (subst findMeshIndex_search.simps) (simp add: imid_def Let_def)
    also have "\<dots> = (if sign > 0 then k else k - 1)"
      using "1.IH"(1)[OF gap imid_def gt] "1.prems" mid up by simp
    finally show ?thesis .
  next
    case down
    then have lt: "val < vals ! nat imid" using cmp "1.prems"(6) by simp
    have "findMeshIndex_search vals val sign imin imax =
          findMeshIndex_search vals val sign imin imid"
      using gap lt by (subst findMeshIndex_search.simps) (simp add: imid_def Let_def)
    also have "\<dots> = (if sign > 0 then k else k - 1)"
      using "1.IH"(2)[OF gap imid_def _ lt] "1.prems" mid down lt by simp
    finally show ?thesis .
  next
    case hit
    then have "val = vals ! nat imid" using "1.prems"(6) by simp
    then show ?thesis
      using gap hit by (subst findMeshIndex_search.simps) (simp add: imid_def Let_def)
  qed
qed

lemma findMeshIndex_in_range:
  assumes "sorted_wrt (<) vals" "length vals = nat sz" "2 \<le> sz"
          "vals ! 0 \<le> val" "val \<le> vals ! nat (sz - 1)"
  shows "\<exists>i. findMeshIndex vals sz val sign = Inr i \<and> 0 \<le> i \<and> i \<le> sz - 2 \<and>
             vals ! nat i \<le> val \<and> val \<le> vals ! nat (i + 1)"
proof -
  have eq: "findMeshIndex vals sz val sign = Inr (findMeshIndex_search vals val sign 0 (sz - 1))"
    using assms by (simp add: findMeshIndex_def)
  from search_bracket[of vals 0 "sz - 1" val sign] assms
  show ?thesis unfolding eq by auto
qed

lemma findMeshIndex_top:
  assumes "sorted_wrt (<) vals" "length vals = nat sz" "2 \<le> sz" "val = vals ! nat (sz - 1)"
  shows "findMeshIndex vals sz val sign = Inr (sz - 2)"
proof -
  have lo: "vals ! 0 \<le> val"
    using strict_nth_less_iff[OF assms(1), of 0 "nat (sz - 1)"] assms by simp
  from findMeshIndex_in_range[OF assms(1-3) lo, of sign] assms(4)
  obtain i where i: "findMeshIndex vals sz val sign = Inr i" "0 \<le> i" "i \<le> sz - 2"
     "val \<le> vals ! nat (i + 1)" by auto
  have "\<not> (vals ! nat (i + 1) < vals ! nat (sz - 1))" using i(4) assms(4) by simp
  then have "\<not> (nat (i + 1) < nat (sz - 1))"
    using strict_nth_less_iff[OF assms(1), of "nat (i + 1)" "nat (sz - 1)"] i assms by simp
  then have "i = sz - 2" using i by linarith
  with i(1) show ?thesis by simp
qed

lemma findMeshIndex_bottom:
  assumes "sorted_wrt (<) vals" "length vals = nat sz" "2 \<le> sz" "val = vals ! 0"
  shows "findMeshIndex vals sz val sign = Inr 0"
proof -
  have hi: "val \<le> vals ! nat (sz - 1)"
    using strict_nth_less_iff[OF assms(1), of 0 "nat (sz - 1)"] assms by simp
  have lo: "vals ! 0 \<le> val" using assms by simp
  from findMeshIndex_in_range[OF assms(1-3) lo hi, of sign]
  obtain i where i: "findMeshIndex vals sz val sign = Inr i" "0 \<le> i" "i \<le> sz - 2"
     "vals ! nat i \<le> val" by auto
  have "\<not> (vals ! 0 < vals ! nat i)" using i(4) assms(4) by simp
  then have "\<not> (0 < nat i)"
    using strict_nth_less_iff[OF assms(1), of 0 "nat i"] i assms by simp
  then have "i = 0" using i by linarith
  with i(1) show ?thesis by simp
qed

lemma findMeshIndex_tie:
  assumes "sorted_wrt (<) vals" "length vals = nat sz" "0 < k" "k < sz - 1" "val = vals ! nat k"
  shows "findMeshIndex vals sz val sign = Inr (if sign > 0 then k else k - 1)"
proof -
  have "vals ! 0 \<le> val" "val \<le> vals ! nat (sz - 1)"
    using strict_nth_less_iff[OF assms(1), of 0 "nat k"]
          strict_nth_less_iff[OF assms(1), of "nat k" "nat (sz - 1)"] assms by auto
  then have eq: "findMeshIndex vals sz val sign = Inr (findMeshIndex_search vals val sign 0 (sz - 1))"
    by (simp add: findMeshIndex_def)
  show ?thesis unfolding eq using search_tie[of vals 0 "sz - 1" k val sign] assms by simp
qed

text \<open>
  C2. For a strictly increasing boundary array of \<open>sz \<ge> 2\<close> values and a query value between
  the first and the last, \<open>findMeshIndex\<close> returns an index \<open>i\<close> of a cell with
  \<open>values[i] \<le> val \<le> values[i+1]\<close>. A query equal to an interior boundary \<open>values[k]\<close> gives
  \<open>k\<close> for a positive sign and \<open>k - 1\<close> otherwise. On \<open>[0, 1, 2, 3]\<close> the query 1.5 gives 1
  for either sign, and the query 1 gives 1 with sign +1 and 0 with sign -1.
\<close>

theorem findMeshIndex_locates_cell:
  assumes "sorted_wrt (<) vals" "length vals = nat sz" "2 \<le> sz"
          "vals ! 0 \<le> val" "val \<le> vals ! nat (sz - 1)"
  shows "(\<exists>i. findMeshIndex vals sz val sign = Inr i \<and> 0 \<le> i \<and> i + 1 < sz \<and>
              vals ! nat i \<le> val \<and> val \<le> vals ! nat (i + 1)) \<and>
         (\<forall>k. 0 < k \<and> k < sz - 1 \<longrightarrow>
              findMeshIndex vals sz (vals ! nat k) 1 = Inr k \<and>
              findMeshIndex vals sz (vals ! nat k) (- 1) = Inr (k - 1) \<and>
              findMeshIndex vals sz (vals ! nat k) sign = Inr (if sign > 0 then k else k - 1)) \<and>
         findMeshIndex [0, 1, 2, 3] 4 (3 / 2) 1 = Inr 1 \<and>
         findMeshIndex [0, 1, 2, 3] 4 (3 / 2) (- 1) = Inr 1 \<and>
         findMeshIndex [0, 1, 2, 3] 4 1 1 = Inr 1 \<and>
         findMeshIndex [0, 1, 2, 3] 4 1 (- 1) = Inr 0"
proof -
  have cell: "\<exists>i. findMeshIndex vals sz val sign = Inr i \<and> 0 \<le> i \<and> i + 1 < sz \<and>
              vals ! nat i \<le> val \<and> val \<le> vals ! nat (i + 1)"
    using findMeshIndex_in_range[OF assms, of sign] by auto
  have tie: "\<forall>k. 0 < k \<and> k < sz - 1 \<longrightarrow>
              findMeshIndex vals sz (vals ! nat k) 1 = Inr k \<and>
              findMeshIndex vals sz (vals ! nat k) (- 1) = Inr (k - 1) \<and>
              findMeshIndex vals sz (vals ! nat k) sign = Inr (if sign > 0 then k else k - 1)"
    using findMeshIndex_tie[OF assms(1,2)] by simp
  have ex: "findMeshIndex [0, 1, 2, 3] 4 (3 / 2) 1 = Inr 1"
       "findMeshIndex [0, 1, 2, 3] 4 (3 / 2) (- 1) = Inr 1"
       "findMeshIndex [0, 1, 2, 3] 4 1 1 = Inr 1"
       "findMeshIndex [0, 1, 2, 3] 4 1 (- 1) = Inr 0"
    by (simp_all add: findMeshIndex_def findMeshIndex_search.simps)
  from cell tie ex show ?thesis by blast
qed

theorem findMeshIndex_locates_cell_witness:
  "sorted_wrt (<) [0, 1, 2, 3 :: real] \<and> length [0, 1, 2, 3 :: real] = nat 4 \<and> (2::int) \<le> 4 \<and>
   [0, 1, 2, 3] ! 0 \<le> (5 / 2 :: real) \<and> (5 / 2 :: real) \<le> [0, 1, 2, 3] ! nat (4 - 1) \<and>
   findMeshIndex [0, 1, 2, 3] 4 (5 / 2) 1 = Inr 2 \<and>
   (0::int) < 2 \<and> (2::int) < 4 - 1 \<and>
   findMeshIndex [0, 1, 2, 3] 4 ([0, 1, 2, 3] ! nat 2) 1 = Inr 2 \<and>
   findMeshIndex [0, 1, 2, 3] 4 ([0, 1, 2, 3] ! nat 2) (- 1) = Inr 1"
proof -
  have h: "sorted_wrt (<) [0, 1, 2, 3 :: real]" "length [0, 1, 2, 3 :: real] = nat 4" "(2::int) \<le> 4"
          "[0, 1, 2, 3] ! 0 \<le> (5 / 2 :: real)" "(5 / 2 :: real) \<le> [0, 1, 2, 3] ! nat (4 - 1)"
    by simp_all
  have cell: "findMeshIndex [0, 1, 2, 3] 4 (5 / 2) 1 = Inr 2"
    by (simp add: findMeshIndex_def findMeshIndex_search.simps)
  from findMeshIndex_locates_cell[OF h, of 1]
  have "findMeshIndex [0, 1, 2, 3] 4 ([0, 1, 2, 3] ! nat 2) 1 = Inr 2 \<and>
        findMeshIndex [0, 1, 2, 3] 4 ([0, 1, 2, 3] ! nat 2) (- 1) = Inr (2 - 1)"
    by (elim conjE allE[of _ 2]) simp
  with h cell show ?thesis by simp
qed

text \<open>
  C6. \<open>findMeshIndex\<close> reports the mesh range error exactly when the query value is below the
  first boundary value or above the last one; no other result is an error, and for a value
  in the range of a strictly increasing array the search ends with a cell index.
\<close>

theorem findMeshIndex_error_iff_out_of_range:
  "((\<exists>e. findMeshIndex vals sz val sign = Inl e) =
      (val < vals ! 0 \<or> val > vals ! nat (sz - 1))) \<and>
   ((findMeshIndex vals sz val sign = Inl MeshRangeError) =
      (val < vals ! 0 \<or> val > vals ! nat (sz - 1))) \<and>
   (sorted_wrt (<) vals \<and> length vals = nat sz \<and> 2 \<le> sz \<and>
    vals ! 0 \<le> val \<and> val \<le> vals ! nat (sz - 1) \<longrightarrow>
      (\<exists>i. findMeshIndex vals sz val sign = Inr i \<and> 0 \<le> i \<and> i + 1 < sz))"
proof -
  have a: "(findMeshIndex vals sz val sign = Inl MeshRangeError) =
           (val < vals ! 0 \<or> val > vals ! nat (sz - 1))"
    by (auto simp: findMeshIndex_def Let_def)
  have b: "(\<exists>e. findMeshIndex vals sz val sign = Inl e) =
           (val < vals ! 0 \<or> val > vals ! nat (sz - 1))"
    by (auto simp: findMeshIndex_def Let_def)
  have c: "sorted_wrt (<) vals \<and> length vals = nat sz \<and> 2 \<le> sz \<and>
           vals ! 0 \<le> val \<and> val \<le> vals ! nat (sz - 1) \<longrightarrow>
           (\<exists>i. findMeshIndex vals sz val sign = Inr i \<and> 0 \<le> i \<and> i + 1 < sz)"
    using findMeshIndex_in_range[of vals sz val sign] by auto
  from a b c show ?thesis by blast
qed

theorem findMeshIndex_error_iff_out_of_range_witness:
  "sorted_wrt (<) [0, 1, 2, 3 :: real] \<and> length [0, 1, 2, 3 :: real] = nat 4 \<and> (2::int) \<le> 4 \<and>
   [0, 1, 2, 3] ! 0 \<le> (3 / 2 :: real) \<and> (3 / 2 :: real) \<le> [0, 1, 2, 3] ! nat (4 - 1) \<and>
   (\<exists>i. findMeshIndex [0, 1, 2, 3] 4 (3 / 2) 1 = Inr i \<and> 0 \<le> i \<and> i + 1 < 4) \<and>
   findMeshIndex [0, 1, 2, 3] 4 (- 1 / 10) 1 = Inl MeshRangeError \<and>
   findMeshIndex [0, 1, 2, 3] 4 (31 / 10) (- 1) = Inl MeshRangeError"
proof -
  have h: "sorted_wrt (<) [0, 1, 2, 3 :: real] \<and> length [0, 1, 2, 3 :: real] = nat 4 \<and> (2::int) \<le> 4 \<and>
           [0, 1, 2, 3] ! 0 \<le> (3 / 2 :: real) \<and> (3 / 2 :: real) \<le> [0, 1, 2, 3] ! nat (4 - 1)"
    by simp
  have lo: "findMeshIndex [0, 1, 2, 3] 4 (- 1 / 10) 1 = Inl MeshRangeError"
    using findMeshIndex_error_iff_out_of_range[of "[0, 1, 2, 3]" 4 "- 1 / 10" 1] by simp
  have hi: "findMeshIndex [0, 1, 2, 3] 4 (31 / 10) (- 1) = Inl MeshRangeError"
    using findMeshIndex_error_iff_out_of_range[of "[0, 1, 2, 3]" 4 "31 / 10" "- 1"] by simp
  from findMeshIndex_error_iff_out_of_range[of "[0, 1, 2, 3]" 4 "3 / 2" 1] h
  have "\<exists>i. findMeshIndex [0, 1, 2, 3] 4 (3 / 2) 1 = Inr i \<and> 0 \<le> i \<and> i + 1 < 4"
    by blast
  with h lo hi show ?thesis by blast
qed

text \<open>
  C10. For a strictly increasing array of \<open>sz \<ge> 2\<close> values and a query value between the first
  and the last, the index returned lies in \<open>[0, sz - 2]\<close>. At the two ends the direction rule
  is not followed out of the mesh: the top boundary with sign +1 gives \<open>sz - 2\<close> and the bottom
  boundary with sign -1 gives 0, without an error.
\<close>

theorem findMeshIndex_valid_cell_index:
  assumes "sorted_wrt (<) vals" "length vals = nat sz" "2 \<le> sz"
          "vals ! 0 \<le> val" "val \<le> vals ! nat (sz - 1)"
  shows "(\<exists>i. findMeshIndex vals sz val sign = Inr i \<and> 0 \<le> i \<and> i \<le> sz - 2) \<and>
         findMeshIndex vals sz (vals ! nat (sz - 1)) 1 = Inr (sz - 2) \<and>
         findMeshIndex vals sz (vals ! 0) (- 1) = Inr 0"
proof -
  have "\<exists>i. findMeshIndex vals sz val sign = Inr i \<and> 0 \<le> i \<and> i \<le> sz - 2"
    using findMeshIndex_in_range[OF assms, of sign] by auto
  moreover have "findMeshIndex vals sz (vals ! nat (sz - 1)) 1 = Inr (sz - 2)"
    using findMeshIndex_top[OF assms(1-3)] by simp
  moreover have "findMeshIndex vals sz (vals ! 0) (- 1) = Inr 0"
    using findMeshIndex_bottom[OF assms(1-3)] by simp
  ultimately show ?thesis by blast
qed

theorem findMeshIndex_valid_cell_index_witness:
  "sorted_wrt (<) [0, 1, 2 :: real] \<and> length [0, 1, 2 :: real] = nat 3 \<and> (2::int) \<le> 3 \<and>
   [0, 1, 2] ! 0 \<le> (2 :: real) \<and> (2 :: real) \<le> [0, 1, 2] ! nat (3 - 1) \<and>
   (\<exists>i. findMeshIndex [0, 1, 2] 3 2 1 = Inr i \<and> 0 \<le> i \<and> i \<le> 3 - 2) \<and>
   findMeshIndex [0, 1, 2] 3 ([0, 1, 2] ! nat (3 - 1)) 1 = Inr (3 - 2) \<and>
   findMeshIndex [0, 1, 2] 3 ([0, 1, 2] ! 0) (- 1) = Inr 0"
proof -
  have h: "sorted_wrt (<) [0, 1, 2 :: real]" "length [0, 1, 2 :: real] = nat 3" "(2::int) \<le> 3"
          "[0, 1, 2] ! 0 \<le> (2 :: real)" "(2 :: real) \<le> [0, 1, 2] ! nat (3 - 1)"
    by simp_all
  from findMeshIndex_valid_cell_index[OF h, of 1] h show ?thesis by blast
qed

section \<open>Properties of the loops\<close>

lemma for_loop_invariant:
  assumes "P i st" "i \<le> hi"
      and "\<And>j st'. i \<le> j \<Longrightarrow> j < hi \<Longrightarrow> P j st' \<Longrightarrow> P (j + 1) (body j st')"
  shows "P hi (for_loop i hi body st)"
  using assms
proof (induction i hi body st rule: for_loop.induct)
  case (1 i hi body st)
  show ?case
  proof (cases "i < hi")
    case True
    have "P hi (for_loop (i + 1) hi body (body i st))"
    proof (rule "1.IH"[OF True])
      show "P (i + 1) (body i st)" using "1.prems"(3)[of i st] "1.prems"(1) True by simp
      show "i + 1 \<le> hi" using True by simp
      show "\<And>j st'. i + 1 \<le> j \<Longrightarrow> j < hi \<Longrightarrow> P j st' \<Longrightarrow> P (j + 1) (body j st')"
        using "1.prems"(3) by simp
    qed
    then show ?thesis using True by (subst for_loop.simps) simp
  next
    case False
    then have "i = hi" using "1.prems"(2) by simp
    then show ?thesis using "1.prems"(1) by (subst for_loop.simps) simp
  qed
qed

lemma for_loop_empty: "hi \<le> i \<Longrightarrow> for_loop i hi body st = st"
  by (subst for_loop.simps) simp

lemma for_loop_preserves:
  assumes "Q st" "\<And>j st'. i \<le> j \<Longrightarrow> j < hi \<Longrightarrow> Q st' \<Longrightarrow> Q (body j st')"
  shows "Q (for_loop i hi body st)"
proof (cases "i \<le> hi")
  case True
  show ?thesis
    by (rule for_loop_invariant[where P = "\<lambda>_. Q", OF assms(1) True]) (rule assms(2))
next
  case False
  then show ?thesis using assms(1) by (simp add: for_loop_empty)
qed

text \<open>A loop whose body appends to a part \<open>g\<close> of the state appends, in loop order, what
  each pass appends.\<close>

lemma for_loop_collect:
  assumes "\<And>j st. g (body j st) = g st @ h j"
  shows "g (for_loop i hi body st) = g st @ concat (map h [i..hi - 1])"
  using assms
proof (induction i hi body st rule: for_loop.induct)
  case (1 i hi body st)
  show ?case
  proof (cases "i < hi")
    case True
    have "g (for_loop i hi body st) = g (for_loop (i + 1) hi body (body i st))"
      using True by (subst for_loop.simps) simp
    also have "\<dots> = g (body i st) @ concat (map h [i + 1..hi - 1])"
      using "1.IH"[OF True] "1.prems" by simp
    also have "\<dots> = g st @ concat (map h [i..hi - 1])"
      using True "1.prems" by (simp add: upto_rec1[of i "hi - 1"])
    finally show ?thesis .
  next
    case False
    then show ?thesis by (simp add: for_loop_empty)
  qed
qed

lemma for_loop_append:
  assumes "\<And>j st. body j st = st @ body j []"
  shows "for_loop i hi body st = st @ concat (map (\<lambda>j. body j []) [i..hi - 1])"
  using for_loop_collect[where g = "\<lambda>st. st" and body = body and h = "\<lambda>j. body j []", OF assms]
  by simp

section \<open>Properties of traceStackTwoWay\<close>

text \<open>The in-place reversal loop yields the reversed list, and the flip loop exchanges the
  two surfaces of every segment, when the track counts the segments it holds.\<close>

lemma reverse_segments_rev:
  assumes "num_segments = int (length segs)"
  shows "reverse_segments num_segments segs = rev segs"
proof -
  define n where "n = length segs"
  define P where "P = (\<lambda>(s::int) (ys::segment list). length ys = n \<and>
      (\<forall>j<n. ys ! j = (if int j < s \<or> int n - s \<le> int j then segs ! (n - 1 - j) else segs ! j)))"
  define body where "body = (\<lambda>(s::int) (segments::segment list).
          (let tmp_segment = segments ! nat (num_segments - s - 1);
               segments = segments[nat (num_segments - s - 1) := segments ! nat s]
           in segments[nat s := tmp_segment]))"
  have nn: "num_segments = int n" using assms n_def by simp
  have "P (num_segments div 2) (for_loop 0 (num_segments div 2) body segs)"
  proof (rule for_loop_invariant)
    show "P 0 segs" by (auto simp: P_def n_def)
    show "0 \<le> num_segments div 2" using nn by simp
  next
    fix j :: int and st' :: "segment list"
    assume j: "0 \<le> j" "j < num_segments div 2" and Pj: "P j st'"
    have len: "length st' = n" using Pj by (simp add: P_def)
    have jn: "nat j < n" "nat (num_segments - j - 1) < n" "nat j < nat (num_segments - j - 1)"
      using j nn by auto
    have a: "st' ! nat j = segs ! nat j" using Pj jn j nn by (auto simp: P_def)
    have b: "st' ! nat (num_segments - j - 1) = segs ! nat (num_segments - j - 1)"
      using Pj jn j nn by (auto simp: P_def)
    have upd: "body j st' = (st'[nat (num_segments - j - 1) := segs ! nat j])
                              [nat j := segs ! nat (num_segments - j - 1)]"
      by (simp add: body_def Let_def a b)
    show "P (j + 1) (body j st')"
      unfolding P_def
    proof (intro conjI allI impI, goal_cases)
      case 1 show ?case by (simp add: upd len)
    next
      case (2 k)
      consider "k = nat j" | "k = nat (num_segments - j - 1)" | "k \<noteq> nat j" "k \<noteq> nat (num_segments - j - 1)"
        by blast
      then show ?case
      proof cases
        case 1
        have "n - 1 - k = nat (num_segments - j - 1)" using 1 j nn by auto
        then show ?thesis using 1 jn j len nn by (simp add: upd)
      next
        case 2
        have "n - 1 - k = nat j" using 2 j nn by auto
        then show ?thesis using 2 jn j len nn by (auto simp add: upd)
      next
        case 3
        have "body j st' ! k = st' ! k" using 3 by (simp add: upd)
        moreover have "st' ! k = (if int k < j \<or> int n - j \<le> int k then segs ! (n - 1 - k) else segs ! k)"
          using Pj \<open>k < n\<close> by (simp add: P_def)
        moreover have "(int k < j + 1 \<or> int n - (j + 1) \<le> int k) = (int k < j \<or> int n - j \<le> int k)"
          using 3 j nn by auto
        ultimately show ?thesis by simp
      qed
    qed
  qed
  then have fin: "P (num_segments div 2) (reverse_segments num_segments segs)"
    by (simp add: reverse_segments_def body_def)
  show ?thesis
  proof (rule nth_equalityI)
    show "length (reverse_segments num_segments segs) = length (rev segs)"
      using fin by (simp add: P_def n_def)
  next
    fix k assume "k < length (reverse_segments num_segments segs)"
    then have k: "k < n" using fin by (simp add: P_def)
    have "reverse_segments num_segments segs ! k =
          (if int k < num_segments div 2 \<or> int n - num_segments div 2 \<le> int k
           then segs ! (n - 1 - k) else segs ! k)"
      using fin k by (simp add: P_def)
    moreover have "\<not> (int k < num_segments div 2 \<or> int n - num_segments div 2 \<le> int k) \<Longrightarrow> n - 1 - k = k"
      using nn k by auto
    ultimately have "reverse_segments num_segments segs ! k = segs ! (n - 1 - k)"
      by auto
    also have "\<dots> = rev segs ! k" using k by (simp add: rev_nth n_def)
    finally show "reverse_segments num_segments segs ! k = rev segs ! k" .
  qed
qed

lemma flip_surfaces_map:
  assumes "num_segments = int (length segs)"
  shows "flip_surfaces num_segments segs = map flip_segment segs"
proof -
  define n where "n = length segs"
  define P where "P = (\<lambda>(s::int) (ys::segment list). length ys = n \<and>
      (\<forall>j<n. ys ! j = (if int j < s then flip_segment (segs ! j) else segs ! j)))"
  define body where "body = (\<lambda>(s::int) (segments::segment list).
          (let tmp_surface = seg_cmfd_surface_fwd (segments ! nat s);
               segments = segments[nat s := (segments ! nat s)
                  \<lparr>seg_cmfd_surface_fwd := seg_cmfd_surface_bwd (segments ! nat s)\<rparr>]
           in segments[nat s := (segments ! nat s)\<lparr>seg_cmfd_surface_bwd := tmp_surface\<rparr>]))"
  have nn: "num_segments = int n" using assms n_def by simp
  have "P num_segments (for_loop 0 num_segments body segs)"
  proof (rule for_loop_invariant)
    show "P 0 segs" by (auto simp: P_def n_def)
    show "0 \<le> num_segments" using nn by simp
  next
    fix j :: int and st' :: "segment list"
    assume j: "0 \<le> j" "j < num_segments" and Pj: "P j st'"
    have len: "length st' = n" using Pj by (simp add: P_def)
    have jn: "nat j < n" using j nn by auto
    have a: "st' ! nat j = segs ! nat j" using Pj jn j by (auto simp: P_def)
    have upd: "body j st' = st'[nat j := flip_segment (segs ! nat j)]"
      using jn len by (simp add: body_def Let_def a flip_segment_def)
    show "P (j + 1) (body j st')"
      unfolding P_def
    proof (intro conjI allI impI, goal_cases)
      case 1 show ?case by (simp add: upd len)
    next
      case (2 k)
      have "st' ! k = (if int k < j then flip_segment (segs ! k) else segs ! k)"
        using Pj 2 by (simp add: P_def)
      then show ?case using 2 j len by (cases "k = nat j") (auto simp: upd)
    qed
  qed
  then have fin: "P num_segments (flip_surfaces num_segments segs)"
    by (simp add: flip_surfaces_def body_def)
  show ?thesis
    by (rule nth_equalityI) (use fin nn in \<open>auto simp: P_def n_def\<close>)
qed

lemma flip_segment_twice: "flip_segment (flip_segment seg) = seg"
  by (simp add: flip_segment_def)

text \<open>
  C4. When \<open>traceStackTwoWay\<close> returns, the flattened 2D track (start point, end point,
  azimuthal angle, the order of its segments and their forward and backward CMFD surfaces)
  and the first 3D track of the stack (start point, end point, polar angle) are what they
  were before the call, for a flattened track whose segment count is the number of segments
  it holds.
\<close>

theorem traceStackTwoWay_restores_tracks:
  assumes "getNumSegments flattened_track = int (length (getSegments flattened_track))"
  shows "fst (traceStackTwoWay env flattened_track first polar_index kern) = flattened_track \<and>
         fst (snd (traceStackTwoWay env flattened_track first polar_index kern)) = first"
proof -
  let ?segs = "getSegments flattened_track"
  let ?n = "getNumSegments flattened_track"
  have n1: "?n = int (length (map flip_segment (rev ?segs)))"
    using assms by simp
  have r1: "flip_surfaces ?n (reverse_segments ?n ?segs) = map flip_segment (rev ?segs)"
    using assms by (simp add: reverse_segments_rev flip_surfaces_map)
  have r2: "reverse_segments ?n (map flip_segment (rev ?segs)) = map flip_segment ?segs"
    using reverse_segments_rev[OF n1] by (simp add: rev_map)
  have r3: "flip_surfaces ?n (map flip_segment ?segs) = ?segs"
    using flip_surfaces_map[of ?n "map flip_segment ?segs"] assms
    by (simp add: flip_segment_twice comp_def)
  show ?thesis
    by (simp add: traceStackTwoWay_def Let_def r1 r2 r3)
qed

theorem traceStackTwoWay_restores_tracks_witness:
  "getNumSegments ex_track = int (length (getSegments ex_track)) \<and>
   fst (traceStackTwoWay ex_env ex_track ex_first 0 []) = ex_track \<and>
   fst (snd (traceStackTwoWay ex_env ex_track ex_first 0 [])) = ex_first"
proof -
  have h: "getNumSegments ex_track = int (length (getSegments ex_track))"
    by (simp add: ex_track_def)
  from traceStackTwoWay_restores_tracks[OF h, of ex_env ex_first 0 "[]"] h
  show ?thesis by simp
qed

section \<open>Properties of traceStackOTF\<close>

text \<open>Each of the four loop bodies of a cell appends to the kernel's calls, and appends at most
  one \<^verbatim>\<open>execute\<close> call, for the stack index of the pass.\<close>

lemma traceStackOTF_lower_append:
  "traceStackOTF_lower env seg material fsr_id sign cos_theta z_spacing track_spacing_3D
      z_min lo up first_seg_len_3D i kernels =
   kernels @ traceStackOTF_lower env seg material fsr_id sign cos_theta z_spacing track_spacing_3D
      z_min lo up first_seg_len_3D i []"
  by (simp add: traceStackOTF_lower_def Let_def split_beta)

lemma traceStackOTF_upper_append:
  "traceStackOTF_upper env seg material fsr_id sign cos_theta z_spacing track_spacing_3D
      z_max lo up first_seg_len_3D i kernels =
   kernels @ traceStackOTF_upper env seg material fsr_id sign cos_theta z_spacing track_spacing_3D
      z_max lo up first_seg_len_3D i []"
  by (simp add: traceStackOTF_upper_def Let_def split_beta)

lemma traceStackOTF_full_append:
  "traceStackOTF_full env seg material fsr_id z_spacing first_start_z first_end_z seg_len_3D
      i kernels =
   kernels @ traceStackOTF_full env seg material fsr_id z_spacing first_start_z first_end_z
      seg_len_3D i []"
  by (simp add: traceStackOTF_full_def Let_def split_beta)

lemma traceStackOTF_both_append:
  "traceStackOTF_both env seg material fsr_id sign cos_theta z_spacing z_min z_max
      first_start_z first_end_z seg_len_3D i kernels =
   kernels @ traceStackOTF_both env seg material fsr_id sign cos_theta z_spacing z_min z_max
      first_start_z first_end_z seg_len_3D i []"
  by (simp add: traceStackOTF_both_def Let_def split_beta)

lemma traceStackOTF_lower_one:
  "one_for_track i (traceStackOTF_lower env seg material fsr_id sign cos_theta z_spacing
      track_spacing_3D z_min lo up first_seg_len_3D i [])"
  by (simp add: traceStackOTF_lower_def Let_def split_beta one_for_track_def)

lemma traceStackOTF_upper_one:
  "one_for_track i (traceStackOTF_upper env seg material fsr_id sign cos_theta z_spacing
      track_spacing_3D z_max lo up first_seg_len_3D i [])"
  by (simp add: traceStackOTF_upper_def Let_def split_beta one_for_track_def)

lemma traceStackOTF_full_one:
  "one_for_track i (traceStackOTF_full env seg material fsr_id z_spacing first_start_z
      first_end_z seg_len_3D i [])"
  by (simp add: traceStackOTF_full_def Let_def split_beta one_for_track_def)

lemma traceStackOTF_both_one:
  "one_for_track i (traceStackOTF_both env seg material fsr_id sign cos_theta z_spacing z_min
      z_max first_start_z first_end_z seg_len_3D i [])"
  by (simp add: traceStackOTF_both_def Let_def split_beta one_for_track_def)

text \<open>The calls added over a range of stack indexes carry strictly increasing indexes of that
  range.\<close>

lemma range_tracks:
  assumes "\<And>i. one_for_track i (h i)"
  shows "sorted_wrt (<) (map execute_track (concat (map h [a..b]))) \<and>
         (\<forall>c \<in> set (concat (map h [a..b])).
            is_Execute c \<and> a \<le> execute_track c \<and> execute_track c \<le> b)"
proof (induction "nat (b + 1 - a)" arbitrary: a)
  case 0
  then have "[a..b] = []" by simp
  then show ?case by simp
next
  case (Suc n)
  then have ab: "a \<le> b" by simp
  have n: "n = nat (b + 1 - (a + 1))" using Suc(2) by simp
  note ih = Suc(1)[OF n]
  have hd: "h a = [] \<or> (\<exists>l m r f b. h a = [Execute l m r a f b])"
    using assms[of a] by (simp add: one_for_track_def)
  have eq: "concat (map h [a..b]) = h a @ concat (map h [a + 1..b])"
    by (simp add: upto_rec1[OF ab])
  have tl: "sorted_wrt (<) (map execute_track (concat (map h [a + 1..b])))"
    "\<forall>c \<in> set (concat (map h [a + 1..b])).
        is_Execute c \<and> a + 1 \<le> execute_track c \<and> execute_track c \<le> b"
    using ih by blast+
  have hd': "sorted_wrt (<) (map execute_track (h a))"
    "\<forall>c \<in> set (h a). is_Execute c \<and> execute_track c = a"
    using hd by auto
  have cross: "\<forall>x \<in> set (h a). \<forall>y \<in> set (concat (map h [a + 1..b])).
                 execute_track x < execute_track y"
    using hd'(2) tl(2) by fastforce
  have s: "sorted_wrt (<) (map execute_track (concat (map h [a..b])))"
    unfolding eq using hd'(1) tl(1) cross by (simp add: sorted_wrt_append)
  have m: "\<forall>c \<in> set (concat (map h [a..b])).
            is_Execute c \<and> a \<le> execute_track c \<and> execute_track c \<le> b"
    unfolding eq using hd'(2) tl(2) ab by fastforce
  from s m show ?case by blast
qed


lemma range_tracks_below:
  assumes "\<And>i. one_for_track i (h i)"
  shows "sorted_wrt (<) (map execute_track (concat (map h [a..b - 1]))) \<and>
         (\<forall>c \<in> set (concat (map h [a..b - 1])). is_Execute c \<and> execute_track c \<in> {a..<b})"
  using range_tracks[of h a "b - 1", OF assms] by auto

text \<open>
  C8. For one axial cell, \<open>traceStackOTF_cell\<close> runs four loops over stack indexes: the lower
  partial crossings over \<open>[start_track, min start_full end_full)\<close>, the full crossings over
  \<open>[start_full, end_full)\<close>, the crossings of both boundaries over \<open>[end_full, start_full)\<close>
  and the upper partial crossings over \<open>[max start_full end_full, end_track)\<close>. The bounds are
  the ceilings of the cell's extent over the stack spacing, the first clamped at 0 and the
  last at \<open>num_z_stack\<close>. What the cell adds to the kernel is what the four loops add, in this
  order, each loop passing over its own range only (\<open>lower\<close>, \<open>full\<close>, \<open>both\<close>, \<open>upper\<close> below
  are the calls of the four loops of the source). The four ranges are pairwise disjoint: the
  \<^verbatim>\<open>execute\<close> calls of a cell carry strictly increasing, hence pairwise different, stack
  indexes, so no track of the stack is taken by two loops. The loop over the tracks crossing
  both boundaries runs only when the loop over the full crossings does not.
\<close>

theorem traceStackOTF_cell_ranges_disjoint:
  assumes zi: "z_ind = (if sign < 0 then num_fsrs - z_iter - 1 else z_iter)"
      and fm: "fsr_id = efsr_fsr_ids extruded_FSR ! nat z_ind"
              "material = efsr_materials extruded_FSR ! nat z_ind"
      and zm: "z_min = axial_mesh ! nat z_ind" "z_max = axial_mesh ! nat (z_ind + 1)"
      and rg: "traceStackOTF_ranges z_min z_max first_track_lower_z first_track_upper_z z_spacing
                 num_z_stack = (start_track, start_full, end_full, end_track)"
      and lw: "lower = concat (map (\<lambda>i. traceStackOTF_lower env seg material fsr_id sign cos_theta
                 z_spacing track_spacing_3D z_min first_track_lower_z first_track_upper_z
                 ((first_track_upper_z - z_min) / \<bar>cos_theta\<bar>) i [])
                 [start_track..min start_full end_full - 1])"
      and fl: "full = (if end_full > start_full \<and> seg_length seg / sin_theta > TINY_MOVE env
                 then concat (map (\<lambda>i. traceStackOTF_full env seg material fsr_id z_spacing
                        first_start_z first_end_z (seg_length seg / sin_theta) i [])
                        [start_full..end_full - 1])
                 else [])"
      and bt: "both = (if \<not> end_full > start_full \<and> start_full > end_full \<and>
                         (z_max - z_min) / \<bar>cos_theta\<bar> > TINY_MOVE env
                 then concat (map (\<lambda>i. traceStackOTF_both env seg material fsr_id sign cos_theta
                        z_spacing z_min z_max first_start_z first_end_z
                        ((z_max - z_min) / \<bar>cos_theta\<bar>) i [])
                        [end_full..start_full - 1])
                 else [])"
      and up: "upper = concat (map (\<lambda>i. traceStackOTF_upper env seg material fsr_id sign cos_theta
                 z_spacing track_spacing_3D z_max first_track_lower_z first_track_upper_z
                 ((z_max - first_track_lower_z) / \<bar>cos_theta\<bar>) i [])
                 [max start_full end_full..end_track - 1])"
  shows "traceStackOTF_cell env seg extruded_FSR num_fsrs axial_mesh num_z_stack z_spacing sign
           cos_theta sin_theta track_spacing_3D first_start_z first_end_z first_track_lower_z
           first_track_upper_z z_iter kernels = kernels @ lower @ full @ both @ upper \<and>
         (\<forall>c \<in> set lower. is_Execute c \<and>
             execute_track c \<in> {start_track ..< min start_full end_full}) \<and>
         (\<forall>c \<in> set full. is_Execute c \<and> execute_track c \<in> {start_full ..< end_full}) \<and>
         (\<forall>c \<in> set both. is_Execute c \<and> execute_track c \<in> {end_full ..< start_full}) \<and>
         (\<forall>c \<in> set upper. is_Execute c \<and>
             execute_track c \<in> {max start_full end_full ..< end_track}) \<and>
         sorted_wrt (<) (map execute_track (lower @ full @ both @ upper)) \<and>
         distinct (map execute_track (lower @ full @ both @ upper)) \<and>
         (both \<noteq> [] \<longrightarrow> full = []) \<and>
         start_track = max \<lceil>(z_min - first_track_upper_z) / z_spacing\<rceil> 0 \<and>
         start_full = \<lceil>(z_min - first_track_lower_z) / z_spacing\<rceil> \<and>
         end_full = \<lceil>(z_max - first_track_upper_z) / z_spacing\<rceil> \<and>
         end_track = min \<lceil>(z_max - first_track_lower_z) / z_spacing\<rceil> num_z_stack \<and>
         0 \<le> start_track \<and> end_track \<le> num_z_stack \<and>
         {start_track ..< min start_full end_full} \<inter> {start_full ..< end_full} = {} \<and>
         {start_track ..< min start_full end_full} \<inter> {end_full ..< start_full} = {} \<and>
         {start_track ..< min start_full end_full} \<inter> {max start_full end_full ..< end_track} = {} \<and>
         {start_full ..< end_full} \<inter> {end_full ..< start_full} = {} \<and>
         {start_full ..< end_full} \<inter> {max start_full end_full ..< end_track} = {} \<and>
         {end_full ..< start_full} \<inter> {max start_full end_full ..< end_track} = {} \<and>
         ({end_full ..< start_full} \<noteq> {} \<longrightarrow> {start_full ..< end_full} = {})"
proof -
  let ?L = "traceStackOTF_lower env seg material fsr_id sign cos_theta
                 z_spacing track_spacing_3D z_min first_track_lower_z first_track_upper_z
                 ((first_track_upper_z - z_min) / \<bar>cos_theta\<bar>)"
  let ?F = "traceStackOTF_full env seg material fsr_id z_spacing
                        first_start_z first_end_z (seg_length seg / sin_theta)"
  let ?B = "traceStackOTF_both env seg material fsr_id sign cos_theta
                        z_spacing z_min z_max first_start_z first_end_z
                        ((z_max - z_min) / \<bar>cos_theta\<bar>)"
  let ?U = "traceStackOTF_upper env seg material fsr_id sign cos_theta
                 z_spacing track_spacing_3D z_max first_track_lower_z first_track_upper_z
                 ((z_max - first_track_lower_z) / \<bar>cos_theta\<bar>)"
  have loopL: "\<And>a b k. for_loop a b ?L k = k @ concat (map (\<lambda>i. ?L i []) [a..b - 1])"
    by (rule for_loop_append) (rule traceStackOTF_lower_append)
  have loopF: "\<And>a b k. for_loop a b ?F k = k @ concat (map (\<lambda>i. ?F i []) [a..b - 1])"
    by (rule for_loop_append) (rule traceStackOTF_full_append)
  have loopB: "\<And>a b k. for_loop a b ?B k = k @ concat (map (\<lambda>i. ?B i []) [a..b - 1])"
    by (rule for_loop_append) (rule traceStackOTF_both_append)
  have loopU: "\<And>a b k. for_loop a b ?U k = k @ concat (map (\<lambda>i. ?U i []) [a..b - 1])"
    by (rule for_loop_append) (rule traceStackOTF_upper_append)
  have cell: "traceStackOTF_cell env seg extruded_FSR num_fsrs axial_mesh num_z_stack z_spacing
           sign cos_theta sin_theta track_spacing_3D first_start_z first_end_z
           first_track_lower_z first_track_upper_z z_iter kernels =
         kernels @ lower @ full @ both @ upper"
    unfolding traceStackOTF_cell_def Let_def
    unfolding zi[symmetric] zm[symmetric] fm[symmetric] rg prod.case
    by (simp add: loopL loopF loopB loopU lw fl bt up)
  have tL: "sorted_wrt (<) (map execute_track lower)"
           "\<forall>c \<in> set lower. is_Execute c \<and>
              execute_track c \<in> {start_track ..< min start_full end_full}"
    unfolding lw
    using range_tracks_below[of "\<lambda>i. ?L i []" start_track "min start_full end_full"]
          traceStackOTF_lower_one by blast+
  have tF: "sorted_wrt (<) (map execute_track full)"
           "\<forall>c \<in> set full. is_Execute c \<and> execute_track c \<in> {start_full ..< end_full}"
    unfolding fl
    using range_tracks_below[of "\<lambda>i. ?F i []" start_full end_full]
          traceStackOTF_full_one by (simp_all del: set_concat)
  have tB: "sorted_wrt (<) (map execute_track both)"
           "\<forall>c \<in> set both. is_Execute c \<and> execute_track c \<in> {end_full ..< start_full}"
    unfolding bt
    using range_tracks_below[of "\<lambda>i. ?B i []" end_full start_full]
          traceStackOTF_both_one by (simp_all del: set_concat)
  have tU: "sorted_wrt (<) (map execute_track upper)"
           "\<forall>c \<in> set upper. is_Execute c \<and>
              execute_track c \<in> {max start_full end_full ..< end_track}"
    unfolding up
    using range_tracks_below[of "\<lambda>i. ?U i []" "max start_full end_full" end_track]
          traceStackOTF_upper_one by blast+
  have excl: "both \<noteq> [] \<longrightarrow> full = []"
    by (auto simp: fl bt)
  have srt: "sorted_wrt (<) (map execute_track (lower @ full @ both @ upper))"
    using tL tF tB tU excl
    by (simp add: sorted_wrt_append) (fastforce simp: Ball_def)
  have dst: "distinct (map execute_track (lower @ full @ both @ upper))"
    using srt strict_sorted_iff by blast
  have bounds: "start_track = max \<lceil>(z_min - first_track_upper_z) / z_spacing\<rceil> 0"
               "start_full = \<lceil>(z_min - first_track_lower_z) / z_spacing\<rceil>"
               "end_full = \<lceil>(z_max - first_track_upper_z) / z_spacing\<rceil>"
               "end_track = min \<lceil>(z_max - first_track_lower_z) / z_spacing\<rceil> num_z_stack"
    using rg by (simp_all add: traceStackOTF_ranges_def Let_def)
  have clamp: "0 \<le> start_track" "end_track \<le> num_z_stack"
    using bounds by simp_all
  have disj: "{start_track ..< min start_full end_full} \<inter> {start_full ..< end_full} = {}"
             "{start_track ..< min start_full end_full} \<inter> {end_full ..< start_full} = {}"
             "{start_track ..< min start_full end_full} \<inter> {max start_full end_full ..< end_track} = {}"
             "{start_full ..< end_full} \<inter> {end_full ..< start_full} = {}"
             "{start_full ..< end_full} \<inter> {max start_full end_full ..< end_track} = {}"
             "{end_full ..< start_full} \<inter> {max start_full end_full ..< end_track} = {}"
    by auto
  have excl': "{end_full ..< start_full} \<noteq> {} \<longrightarrow> {start_full ..< end_full} = {}"
    by auto
  from cell tL(2) tF(2) tB(2) tU(2) srt dst excl bounds clamp disj excl' show ?thesis
    by (intro conjI)
qed


theorem traceStackOTF_cell_ranges_disjoint_witness:
  "traceStackOTF_ranges 0 1 (- 2) (2 / 3) 1 4 = (0, 2, 1, 3) \<and>
   traceStackOTF_cell ex_env (getSegments ex_track ! 0) ex_fsr 2 [0, 1, 2] 4 1 1 (4 / 5) (3 / 5)
     (5 / 4) (- 2) (2 / 3) (- 2) (2 / 3) 0 [] =
   [Execute (5 / 6) 0 10 0 (- 1) (- 1)] @ [] @ [Execute (5 / 4) 0 10 1 (- 1) (- 1)]
     @ [Execute (5 / 4) 0 10 2 (- 1) (- 1)] \<and>
   execute_track (Execute (5 / 6) 0 10 0 (- 1) (- 1)) \<in> {0 ..< min 2 (1::int)} \<and>
   execute_track (Execute (5 / 4) 0 10 1 (- 1) (- 1)) \<in> {1 ..< (2::int)} \<and>
   execute_track (Execute (5 / 4) 0 10 2 (- 1) (- 1)) \<in> {max 2 1 ..< (3::int)} \<and>
   distinct (map execute_track
     ([Execute (5 / 6) 0 10 0 (- 1) (- 1)] @ [] @ [Execute (5 / 4) 0 10 1 (- 1) (- 1)]
        @ [Execute (5 / 4) 0 10 2 (- 1) (- 1)]))"
proof -
  have rg: "traceStackOTF_ranges
      ([0, 1, 2] ! nat (if (1::int) < 0 then 2 - 0 - 1 else 0))
      ([0, 1, 2] ! nat ((if (1::int) < 0 then 2 - 0 - 1 else 0) + 1))
      (- 2) (2 / 3) 1 4 = (0, 2, 1, 3)"
    by (simp add: traceStackOTF_ranges_def Let_def ceiling_eq_iff)
  have rg': "traceStackOTF_ranges 0 1 (- 2) (2 / 3) 1 4 = (0, 2, 1, 3)"
    using rg by simp
  note t = traceStackOTF_cell_ranges_disjoint[OF refl refl refl refl refl rg refl refl refl refl,
      where extruded_FSR = ex_fsr and env = ex_env and seg = "getSegments ex_track ! 0"
        and cos_theta = "4 / 5" and sin_theta = "3 / 5" and track_spacing_3D = "5 / 4"
        and first_start_z = "- 2" and first_end_z = "2 / 3" and kernels = "[]"]
  have ev: "concat (map (\<lambda>i. traceStackOTF_lower ex_env (getSegments ex_track ! 0) 0 10 1 (4 / 5)
               1 (5 / 4) 0 (- 2) (2 / 3) ((2 / 3 - 0) / \<bar>4 / 5\<bar>) i []) [0..min 2 1 - 1])
            = [Execute (5 / 6) 0 10 0 (- 1) (- 1)]"
    "concat (map (\<lambda>i. traceStackOTF_both ex_env (getSegments ex_track ! 0) 0 10 1 (4 / 5)
               1 0 1 (- 2) (2 / 3) ((1 - 0) / \<bar>4 / 5\<bar>) i []) [1..2 - 1])
            = [Execute (5 / 4) 0 10 1 (- 1) (- 1)]"
    "concat (map (\<lambda>i. traceStackOTF_upper ex_env (getSegments ex_track ! 0) 0 10 1 (4 / 5)
               1 (5 / 4) 1 (- 2) (2 / 3) ((1 - - 2) / \<bar>4 / 5\<bar>) i []) [max 2 1..3 - 1])
            = [Execute (5 / 4) 0 10 2 (- 1) (- 1)]"
    by (simp_all add: traceStackOTF_lower_def traceStackOTF_both_def traceStackOTF_upper_def
          Let_def ex_env_def ex_track_def upto.simps)
  from t ev rg' show ?thesis
    by (simp add: ex_fsr_def ex_env_def ex_track_def)
qed

section \<open>Segments passed to the kernel\<close>

text \<open>Every loop body of \<open>traceStackOTF\<close> and every pass of \<open>traceSegmentsOTF\<close> leaves the
  kernel as it is or adds one \<^verbatim>\<open>execute\<close> call whose length is above \<^verbatim>\<open>TINY_MOVE\<close>.\<close>

lemma appends_long_refl: "appends_long env kern kern"
  by (simp add: appends_long_def)

lemma appends_long_trans:
  "appends_long env k1 k2 \<Longrightarrow> appends_long env k2 k3 \<Longrightarrow> appends_long env k1 k3"
  unfolding appends_long_def by (metis Un_iff append.assoc set_append)

lemma appends_long_execute:
  "TINY_MOVE env < l \<Longrightarrow> appends_long env kern (kern @ [Execute l m r t f b])"
  by (simp add: appends_long_def)

lemma appends_long_for_loop:
  assumes "\<And>j st. appends_long env st (body j st)"
  shows "appends_long env kern (for_loop i hi body kern)"
  by (rule for_loop_preserves[where Q = "appends_long env kern"])
     (auto intro: appends_long_refl appends_long_trans assms)

lemma traceStackOTF_lower_appends:
  "appends_long env kern (traceStackOTF_lower env seg material fsr_id sign cos_theta z_spacing
      track_spacing_3D z_min lo up first_seg_len_3D i kern)"
  by (auto simp: traceStackOTF_lower_def Let_def appends_long_refl appends_long_execute
           split: option.splits prod.splits)

lemma traceStackOTF_upper_appends:
  "appends_long env kern (traceStackOTF_upper env seg material fsr_id sign cos_theta z_spacing
      track_spacing_3D z_max lo up first_seg_len_3D i kern)"
  by (auto simp: traceStackOTF_upper_def Let_def appends_long_refl appends_long_execute
           split: option.splits prod.splits)

lemma traceStackOTF_full_appends:
  "TINY_MOVE env < seg_len_3D \<Longrightarrow>
   appends_long env kern (traceStackOTF_full env seg material fsr_id z_spacing first_start_z
      first_end_z seg_len_3D i kern)"
  by (auto simp: traceStackOTF_full_def Let_def appends_long_execute
           split: option.splits prod.splits)

lemma traceStackOTF_both_appends:
  "TINY_MOVE env < seg_len_3D \<Longrightarrow>
   appends_long env kern (traceStackOTF_both env seg material fsr_id sign cos_theta z_spacing
      z_min z_max first_start_z first_end_z seg_len_3D i kern)"
  by (auto simp: traceStackOTF_both_def Let_def appends_long_execute
           split: option.splits prod.splits)

lemma traceStackOTF_cell_appends:
  "appends_long env kern (traceStackOTF_cell env seg extruded_FSR num_fsrs axial_mesh num_z_stack
      z_spacing sign cos_theta sin_theta track_spacing_3D first_start_z first_end_z lo up
      z_iter kern)"
proof -
  define z_ind where "z_ind = (if sign < 0 then num_fsrs - z_iter - 1 else z_iter)"
  define fsr_id where "fsr_id = efsr_fsr_ids extruded_FSR ! nat z_ind"
  define material where "material = efsr_materials extruded_FSR ! nat z_ind"
  define z_min where "z_min = axial_mesh ! nat z_ind"
  define z_max where "z_max = axial_mesh ! nat (z_ind + 1)"
  obtain start_track start_full end_full end_track where
    r: "traceStackOTF_ranges z_min z_max lo up z_spacing num_z_stack =
          (start_track, start_full, end_full, end_track)"
    by (metis prod_cases4)
  define k1 where "k1 = for_loop start_track (min start_full end_full)
      (traceStackOTF_lower env seg material fsr_id sign cos_theta z_spacing track_spacing_3D
         z_min lo up ((up - z_min) / \<bar>cos_theta\<bar>)) kern"
  define k2 where "k2 =
     (if end_full > start_full then
        (if seg_length seg / sin_theta > TINY_MOVE env then
           for_loop start_full end_full
             (traceStackOTF_full env seg material fsr_id z_spacing first_start_z first_end_z
                (seg_length seg / sin_theta)) k1
         else k1)
      else if start_full > end_full then
        (if (z_max - z_min) / \<bar>cos_theta\<bar> > TINY_MOVE env then
           for_loop end_full start_full
             (traceStackOTF_both env seg material fsr_id sign cos_theta z_spacing z_min z_max
                first_start_z first_end_z ((z_max - z_min) / \<bar>cos_theta\<bar>)) k1
         else k1)
      else k1)"
  have cell: "traceStackOTF_cell env seg extruded_FSR num_fsrs axial_mesh num_z_stack
      z_spacing sign cos_theta sin_theta track_spacing_3D first_start_z first_end_z lo up
      z_iter kern =
      for_loop (max start_full end_full) end_track
        (traceStackOTF_upper env seg material fsr_id sign cos_theta z_spacing track_spacing_3D
           z_max lo up ((z_max - lo) / \<bar>cos_theta\<bar>)) k2"
    unfolding traceStackOTF_cell_def Let_def
    unfolding z_ind_def[symmetric] z_min_def[symmetric] z_max_def[symmetric]
      fsr_id_def[symmetric] material_def[symmetric] r prod.case
      k1_def[symmetric] k2_def[symmetric] ..
  have a1: "appends_long env kern k1"
    unfolding k1_def by (rule appends_long_for_loop) (rule traceStackOTF_lower_appends)
  have a2: "appends_long env k1 k2"
    unfolding k2_def
    by (auto intro!: appends_long_for_loop appends_long_refl traceStackOTF_full_appends
                     traceStackOTF_both_appends)
  have a3: "appends_long env k2 (for_loop (max start_full end_full) end_track
        (traceStackOTF_upper env seg material fsr_id sign cos_theta z_spacing track_spacing_3D
           z_max lo up ((z_max - lo) / \<bar>cos_theta\<bar>)) k2)"
    by (rule appends_long_for_loop) (rule traceStackOTF_upper_appends)
  show ?thesis
    unfolding cell by (rule appends_long_trans[OF appends_long_trans[OF a1 a2] a3])
qed

lemma traceStackOTF_segment_appends:
  "appends_long env kern (snd (traceStackOTF_segment env segments_2D num_z_stack z_spacing sign
      cos_theta sin_theta tan_theta track_spacing_3D s (first_start_z, kern)))"
  by (auto simp: traceStackOTF_segment_def Let_def split: option.splits prod.splits
           intro!: appends_long_for_loop traceStackOTF_cell_appends)

lemma traceStackOTF_appends:
  "appends_long env kern (traceStackOTF env flattened_track first polar_index kern)"
proof -
  have "\<And>i hi body z. (\<And>j z' k. appends_long env k (snd (body j (z', k)))) \<Longrightarrow>
          appends_long env kern (snd (for_loop i hi body (z :: real, kern)))"
  proof -
    fix i hi and body :: "int \<Rightarrow> real \<times> call list \<Rightarrow> real \<times> call list" and z
    assume b: "\<And>j z' k. appends_long env k (snd (body j (z', k)))"
    show "appends_long env kern (snd (for_loop i hi body (z, kern)))"
      by (rule for_loop_preserves[where Q = "\<lambda>st. appends_long env kern (snd st)"])
         (auto intro: appends_long_refl appends_long_trans b)
  qed
  then show ?thesis
    unfolding traceStackOTF_def Let_def
    by (blast intro: traceStackOTF_segment_appends)
qed

text \<open>One pass of the inner loop of \<open>traceSegmentsOTF\<close> moves the axial index by the sign, or
  stays in the cell and uses up the 2D segment. So the loop ends when the track is not
  horizontal.\<close>

lemma traceSegmentsOTF_step_appends:
  "traceSegmentsOTF_step env seg extruded_FSR axial_mesh cos_theta sin_theta sign
      remaining_length_2D z_ind z_coord kern = (r, kern') \<Longrightarrow> appends_long env kern kern'"
  by (auto simp: traceSegmentsOTF_step_def Let_def appends_long_refl appends_long_execute
           split: option.splits prod.splits if_splits)

lemma traceSegmentsOTF_step_move:
  "traceSegmentsOTF_step env seg extruded_FSR axial_mesh cos_theta sin_theta sign
      remaining_length_2D z_ind z_coord kern = ((remaining_length_2D', z_ind', z_coord'), kern')
   \<Longrightarrow> z_ind' = z_ind + sign \<or> (z_ind' = z_ind \<and> remaining_length_2D' = 0)"
  by (auto simp: traceSegmentsOTF_step_def Let_def split: option.splits prod.splits if_splits)

lemma traceSegmentsOTF_while_appends:
  assumes "traceSegmentsOTF_while env seg extruded_FSR num_fsrs axial_mesh cos_theta sin_theta sign
      remaining_length_2D z_ind z_coord kern = Some y"
  shows "appends_long env kern (snd y)"
proof (rule traceSegmentsOTF_while.raw_induct[where P = "\<lambda>env seg extruded_FSR num_fsrs axial_mesh
      cos_theta sin_theta sign remaining_length_2D z_ind z_coord kern y.
      appends_long env kern (snd y)", OF _ assms], goal_cases)
  case (1 w env seg extruded_FSR num_fsrs axial_mesh cos_theta sin_theta sign
      remaining_length_2D z_ind z_coord kern y)
  show ?case
  proof (cases "0 < remaining_length_2D")
    case False
    with 1(2) show ?thesis by (auto simp: appends_long_refl)
  next
    case True
    obtain rem' z' zc' k' where st: "traceSegmentsOTF_step env seg extruded_FSR axial_mesh
        cos_theta sin_theta sign remaining_length_2D z_ind z_coord kern = ((rem', z', zc'), k')"
      by (metis prod_cases3 surj_pair)
    have a: "appends_long env kern k'" by (rule traceSegmentsOTF_step_appends[OF st])
    show ?thesis
    proof (cases "z' < 0 \<or> num_fsrs \<le> z'")
      case True
      with 1(2) \<open>0 < remaining_length_2D\<close> st a show ?thesis by auto
    next
      case False
      with 1(2) \<open>0 < remaining_length_2D\<close> st
      have "w env seg extruded_FSR num_fsrs axial_mesh cos_theta sin_theta sign rem' z' zc' k'
            = Some y" by simp
      from a 1(1)[OF this] show ?thesis by (rule appends_long_trans)
    qed
  qed
qed

lemma traceSegmentsOTF_while_terminates:
  assumes "sign \<noteq> 0"
  shows "\<exists>r. traceSegmentsOTF_while env seg extruded_FSR num_fsrs axial_mesh cos_theta sin_theta
      sign remaining_length_2D z_ind z_coord kern = Some r"
proof (induction "nat (if sign > 0 then num_fsrs - z_ind else z_ind + 1)"
       arbitrary: remaining_length_2D z_ind z_coord kern rule: less_induct)
  case less
  show ?case
  proof (cases "0 < remaining_length_2D")
    case False
    then show ?thesis by (subst traceSegmentsOTF_while.simps) auto
  next
    case True
    obtain rem' z' zc' k' where st: "traceSegmentsOTF_step env seg extruded_FSR axial_mesh
        cos_theta sin_theta sign remaining_length_2D z_ind z_coord kern = ((rem', z', zc'), k')"
      by (metis prod_cases3 surj_pair)
    show ?thesis
    proof (cases "z' < 0 \<or> num_fsrs \<le> z'")
      case True
      then show ?thesis using \<open>0 < remaining_length_2D\<close> st
        by (subst traceSegmentsOTF_while.simps) auto
    next
      case False
      have unfold: "traceSegmentsOTF_while env seg extruded_FSR num_fsrs axial_mesh cos_theta
          sin_theta sign remaining_length_2D z_ind z_coord kern =
          traceSegmentsOTF_while env seg extruded_FSR num_fsrs axial_mesh cos_theta
          sin_theta sign rem' z' zc' k'"
        using False \<open>0 < remaining_length_2D\<close> st
        by (subst traceSegmentsOTF_while.simps) auto
      from traceSegmentsOTF_step_move[OF st]
      show ?thesis
      proof
        assume mv: "z' = z_ind + sign"
        have "nat (if sign > 0 then num_fsrs - z' else z' + 1)
              < nat (if sign > 0 then num_fsrs - z_ind else z_ind + 1)"
          using mv False assms by auto
        from less[OF this] show ?thesis unfolding unfold .
      next
        assume "z' = z_ind \<and> rem' = 0"
        then show ?thesis unfolding unfold
          by (subst traceSegmentsOTF_while.simps) auto
      qed
    qed
  qed
qed

lemma traceSegmentsOTF_segments_done:
  "\<not> s < num_segments \<Longrightarrow>
   traceSegmentsOTF_segments env segments_2D num_segments contains_global_z_mesh cos_theta
      sin_theta sign s first_segment num_fsrs axial_mesh z_ind z_coord start_dist_2D kern
     = Some (Completed, kern)"
  by (subst traceSegmentsOTF_segments.simps) simp

lemma traceSegmentsOTF_segments_error:
  "s < num_segments \<Longrightarrow>
   traceSegmentsOTF_mesh (getExtrudedFSR env (seg_region_id (segments_2D ! nat s)))
      first_segment contains_global_z_mesh sign z_coord num_fsrs axial_mesh z_ind = Inl e \<Longrightarrow>
   traceSegmentsOTF_segments env segments_2D num_segments contains_global_z_mesh cos_theta
      sin_theta sign s first_segment num_fsrs axial_mesh z_ind z_coord start_dist_2D kern
     = Some (Failed e, kern)"
  by (subst traceSegmentsOTF_segments.simps) simp

lemma traceSegmentsOTF_segments_next:
  "s < num_segments \<Longrightarrow>
   traceSegmentsOTF_mesh (getExtrudedFSR env (seg_region_id (segments_2D ! nat s)))
      first_segment contains_global_z_mesh sign z_coord num_fsrs axial_mesh z_ind
     = Inr (num_fsrs', axial_mesh', z_ind') \<Longrightarrow>
   traceSegmentsOTF_while env (segments_2D ! nat s)
      (getExtrudedFSR env (seg_region_id (segments_2D ! nat s))) num_fsrs' axial_mesh'
      cos_theta sin_theta sign (seg_length (segments_2D ! nat s) - start_dist_2D) z_ind' z_coord
      kern = Some ((z_ind'', z_coord'', segments_complete), kern') \<Longrightarrow>
   traceSegmentsOTF_segments env segments_2D num_segments contains_global_z_mesh cos_theta
      sin_theta sign s first_segment num_fsrs axial_mesh z_ind z_coord start_dist_2D kern
     = (if segments_complete then Some (AxialExit, kern')
        else traceSegmentsOTF_segments env segments_2D num_segments contains_global_z_mesh
               cos_theta sin_theta sign (s + 1) False num_fsrs' axial_mesh' z_ind'' z_coord'' 0
               kern')"
  by (subst traceSegmentsOTF_segments.simps) simp

lemma traceSegmentsOTF_segments_appends:
  "traceSegmentsOTF_segments env segments_2D num_segments contains_global_z_mesh cos_theta
      sin_theta sign s first_segment num_fsrs axial_mesh z_ind z_coord start_dist_2D kern
     = Some (status, kern') \<Longrightarrow> appends_long env kern kern'"
proof (induction env segments_2D num_segments contains_global_z_mesh cos_theta sin_theta sign s
        first_segment num_fsrs axial_mesh z_ind z_coord start_dist_2D kern
        rule: traceSegmentsOTF_segments.induct)
  case (1 env segments_2D num_segments contains_global_z_mesh cos_theta sin_theta sign s
        first_segment num_fsrs axial_mesh z_ind z_coord start_dist_2D kern)
  let ?F = "getExtrudedFSR env (seg_region_id (segments_2D ! nat s))"
  show ?case
  proof (cases "s < num_segments")
    case False
    with "1.prems" show ?thesis
      by (simp add: traceSegmentsOTF_segments_done appends_long_refl)
  next
    case True
    show ?thesis
    proof (cases "traceSegmentsOTF_mesh ?F first_segment contains_global_z_mesh sign z_coord
                    num_fsrs axial_mesh z_ind")
      case (Inl e)
      with "1.prems" True show ?thesis
        by (simp add: traceSegmentsOTF_segments_error appends_long_refl)
    next
      case (Inr b)
      obtain nf mesh z where b: "b = (nf, mesh, z)" by (cases b) auto
      obtain z' zc' fin k' where
        w: "traceSegmentsOTF_while env (segments_2D ! nat s) ?F nf mesh cos_theta sin_theta sign
              (seg_length (segments_2D ! nat s) - start_dist_2D) z z_coord kern
            = Some ((z', zc', fin), k')"
        using "1.prems" True Inr b
        by (subst (asm) traceSegmentsOTF_segments.simps) (auto split: option.splits)
      have a: "appends_long env kern k'" using traceSegmentsOTF_while_appends[OF w] by simp
      note nxt = traceSegmentsOTF_segments_next[OF True Inr[unfolded b] w]
      show ?thesis
      proof (cases fin)
        case True
        with "1.prems" nxt a show ?thesis by simp
      next
        case False
        have rec: "traceSegmentsOTF_segments env segments_2D num_segments contains_global_z_mesh
            cos_theta sin_theta sign (s + 1) False nf mesh z' zc' 0 k' = Some (status, kern')"
          using "1.prems" nxt False by simp
        have "appends_long env k' kern'"
          by (rule "1.IH"[OF \<open>s < num_segments\<close> Inr b[symmetric] refl w refl refl refl False rec])
        with a show ?thesis by (rule appends_long_trans)
      qed
    qed
  qed
qed

lemma traceSegmentsOTF_segments_terminates:
  assumes "sign \<noteq> 0"
  shows "\<exists>r. traceSegmentsOTF_segments env segments_2D num_segments contains_global_z_mesh
      cos_theta sin_theta sign s first_segment num_fsrs axial_mesh z_ind z_coord start_dist_2D
      kern = Some r"
  using assms
proof (induction env segments_2D num_segments contains_global_z_mesh cos_theta sin_theta sign s
        first_segment num_fsrs axial_mesh z_ind z_coord start_dist_2D kern
        rule: traceSegmentsOTF_segments.induct)
  case (1 env segments_2D num_segments contains_global_z_mesh cos_theta sin_theta sign s
        first_segment num_fsrs axial_mesh z_ind z_coord start_dist_2D kern)
  let ?F = "getExtrudedFSR env (seg_region_id (segments_2D ! nat s))"
  show ?case
  proof (cases "s < num_segments")
    case False
    then show ?thesis by (simp add: traceSegmentsOTF_segments_done)
  next
    case True
    show ?thesis
    proof (cases "traceSegmentsOTF_mesh ?F first_segment contains_global_z_mesh sign z_coord
                    num_fsrs axial_mesh z_ind")
      case (Inl e)
      with True show ?thesis by (simp add: traceSegmentsOTF_segments_error)
    next
      case (Inr b)
      obtain nf mesh z where b: "b = (nf, mesh, z)" by (cases b) auto
      obtain z' zc' fin k' where
        w: "traceSegmentsOTF_while env (segments_2D ! nat s) ?F nf mesh cos_theta sin_theta sign
              (seg_length (segments_2D ! nat s) - start_dist_2D) z z_coord kern
            = Some ((z', zc', fin), k')"
        using traceSegmentsOTF_while_terminates[OF "1.prems", of env "segments_2D ! nat s" ?F nf
                mesh cos_theta sin_theta "seg_length (segments_2D ! nat s) - start_dist_2D" z
                z_coord kern]
        by (metis prod_cases3 surj_pair)
      note nxt = traceSegmentsOTF_segments_next[OF True Inr[unfolded b] w]
      show ?thesis
      proof (cases fin)
        case True
        with nxt show ?thesis by simp
      next
        case False
        from "1.IH"[OF \<open>s < num_segments\<close> Inr b[symmetric] refl w refl refl refl False "1.prems"]
        show ?thesis using nxt False by simp
      qed
    qed
  qed
qed

lemma traceSegmentsOTF_appends:
  "traceSegmentsOTF env flattened_track start theta kern = Some (status, kern')
   \<Longrightarrow> appends_long env kern kern'"
  by (auto simp: traceSegmentsOTF_def Let_def appends_long_refl
           split: prod.splits sum.splits option.splits
           dest: traceSegmentsOTF_segments_appends)

lemma traceSegmentsOTF_terminates:
  assumes "cos theta \<noteq> 0"
  shows "\<exists>r. traceSegmentsOTF env flattened_track start theta kern = Some r"
proof -
  define sign where
    "sign = (if cos theta > 0 then 1 else 0) - (if cos theta < 0 then 1 else (0::int))"
  have sg: "sign \<noteq> 0" using assms by (auto simp: sign_def)
  have seg: "\<And>nseg glob s first nf mesh z zc sd.
     traceSegmentsOTF_segments env (getSegments flattened_track) nseg glob (cos theta) (sin theta)
       sign s first nf mesh z zc sd kern \<noteq> None"
    using traceSegmentsOTF_segments_terminates[OF sg] by fastforce
  then have seg': "\<And>nseg glob s first nf mesh z zc sd.
     \<exists>a b. traceSegmentsOTF_segments env (getSegments flattened_track) nseg glob (cos theta)
       (sin theta) sign s first nf mesh z zc sd kern = Some (a, b)"
    by simp
  have "traceSegmentsOTF env flattened_track start theta kern \<noteq> None"
    unfolding traceSegmentsOTF_def Let_def sign_def[symmetric]
    by (simp add: seg' split: prod.splits sum.splits option.splits)
  then show ?thesis by blast
qed

section \<open>Concrete runs\<close>

lemma cos_ex_theta: "cos ex_theta = 4 / 5"
  by (simp add: ex_theta_def cos_arccos)

lemma sin_ex_theta: "sin ex_theta = 3 / 5"
proof -
  have "sin (arccos (4 / 5 :: real)) = sqrt (1 - (4 / 5)\<^sup>2)"
    by (rule sin_arccos) simp_all
  also have "1 - (4 / 5 :: real)\<^sup>2 = (3 / 5)\<^sup>2" by (simp add: power2_eq_square)
  also have "sqrt ((3 / 5 :: real)\<^sup>2) = 3 / 5" by (simp del: power_divide)
  finally show ?thesis by (simp add: ex_theta_def)
qed

lemma ceiling_one_div_numeral: "\<lceil>1 / numeral n :: real\<rceil> = 1"
  by (simp add: ceiling_eq_iff)

lemmas traceStackOTF_eval = traceStackOTF_def traceStackOTF_segment_def traceStackOTF_cell_def
      traceStackOTF_ranges_def traceStackOTF_lower_def traceStackOTF_full_def
      traceStackOTF_both_def traceStackOTF_upper_def for_loop.simps Let_def
      ceiling_one_div_numeral

lemmas traceSegmentsOTF_eval = traceSegmentsOTF_def traceSegmentsOTF_segments.simps
      traceSegmentsOTF_while.simps traceSegmentsOTF_mesh_def
      traceSegmentsOTF_step_def traceSegmentsOTF_start.simps findMeshIndex_def
      findMeshIndex_search.simps Let_def

lemmas ex_defs = ex_env_def ex_track_def ex_first_def ex_fsr_def cos_ex_theta sin_ex_theta

lemma ex_stack_run:
  "traceStackOTF ex_env ex_track ex_first 0 [] =
     [Execute (5 / 6) 0 10 0 (- 1) (- 1), Execute (5 / 4) 0 10 1 (- 1) (- 1),
      Execute (5 / 4) 0 10 2 (- 1) (- 1), Execute (5 / 6) 1 11 1 (- 1) (- 1),
      Execute (5 / 4) 1 11 2 (- 1) (- 1), Execute (5 / 4) 1 11 3 (- 1) (- 1)]"
  by (simp add: traceStackOTF_eval ex_defs)

lemma ex_otf_run:
  "traceSegmentsOTF ex_env ex_track (Point 0 0 (1 / 2)) ex_theta [] =
     Some (AxialExit, [Execute (5 / 8) 0 10 0 (- 1) (- 1), Execute (5 / 4) 1 11 0 (- 1) (- 1)])"
  by (simp add: traceSegmentsOTF_eval ex_defs)

text \<open>
  C5. Every \<^verbatim>\<open>execute\<close> call made by \<open>traceSegmentsOTF\<close> and by \<open>traceStackOTF\<close> (in each of
  its four ranges) has a length strictly above \<^verbatim>\<open>TINY_MOVE\<close>: what either function adds to the
  kernel's calls is only such calls. \<open>traceStackOTF\<close> always returns, and \<open>traceSegmentsOTF\<close>
  returns for every polar angle whose cosine is not zero.
\<close>

theorem emitted_segments_exceed_TINY_MOVE:
  "(cos theta \<noteq> 0 \<longrightarrow> (\<exists>r. traceSegmentsOTF env flattened_track start theta kern = Some r)) \<and>
   (\<forall>status kern'.
      traceSegmentsOTF env flattened_track start theta kern = Some (status, kern') \<longrightarrow>
      (\<exists>new. kern' = kern @ new \<and>
             (\<forall>c \<in> set new. is_Execute c \<and> TINY_MOVE env < execute_length c))) \<and>
   (\<exists>new. traceStackOTF env flattened_track first polar_index kernels = kernels @ new \<and>
          (\<forall>c \<in> set new. is_Execute c \<and> TINY_MOVE env < execute_length c))"
proof (intro conjI allI impI)
  assume "cos theta \<noteq> 0"
  then show "\<exists>r. traceSegmentsOTF env flattened_track start theta kern = Some r"
    by (rule traceSegmentsOTF_terminates)
next
  fix status kern'
  assume "traceSegmentsOTF env flattened_track start theta kern = Some (status, kern')"
  then show "\<exists>new. kern' = kern @ new \<and>
             (\<forall>c \<in> set new. is_Execute c \<and> TINY_MOVE env < execute_length c)"
    using traceSegmentsOTF_appends by (simp add: appends_long_def)
next
  show "\<exists>new. traceStackOTF env flattened_track first polar_index kernels = kernels @ new \<and>
          (\<forall>c \<in> set new. is_Execute c \<and> TINY_MOVE env < execute_length c)"
    using traceStackOTF_appends[of env kernels flattened_track first polar_index]
    by (simp add: appends_long_def)
qed

theorem emitted_segments_exceed_TINY_MOVE_witness:
  "cos ex_theta \<noteq> 0 \<and>
   traceSegmentsOTF ex_env ex_track (Point 0 0 (1 / 2)) ex_theta [] =
     Some (AxialExit, [Execute (5 / 8) 0 10 0 (- 1) (- 1), Execute (5 / 4) 1 11 0 (- 1) (- 1)]) \<and>
   TINY_MOVE ex_env < execute_length (Execute (5 / 8) 0 10 0 (- 1) (- 1)) \<and>
   TINY_MOVE ex_env < execute_length (Execute (5 / 4) 1 11 0 (- 1) (- 1)) \<and>
   Execute (5 / 6) 0 10 0 (- 1) (- 1) \<in> set (traceStackOTF ex_env ex_track ex_first 0 []) \<and>
   TINY_MOVE ex_env < execute_length (Execute (5 / 6) 0 10 0 (- 1) (- 1))"
proof -
  have c: "cos ex_theta \<noteq> 0" by (simp add: cos_ex_theta)
  note t = emitted_segments_exceed_TINY_MOVE[of ex_theta ex_env ex_track "Point 0 0 (1 / 2)" "[]"
             ex_first 0 "[]"]
  from t ex_otf_run
  have otf: "\<forall>c \<in> set [Execute (5 / 8) 0 10 0 (- 1) (- 1), Execute (5 / 4) 1 11 0 (- 1) (- 1)].
               is_Execute c \<and> TINY_MOVE ex_env < execute_length c"
    by auto
  from t ex_stack_run
  have stack: "\<forall>c \<in> set (traceStackOTF ex_env ex_track ex_first 0 []).
               is_Execute c \<and> TINY_MOVE ex_env < execute_length c"
    by auto
  have mem: "Execute (5 / 6) 0 10 0 (- 1) (- 1) \<in> set (traceStackOTF ex_env ex_track ex_first 0 [])"
    by (simp add: ex_stack_run)
  from c ex_otf_run otf stack mem show ?thesis by auto
qed

section \<open>Properties of loopOverTracksByStackOTF\<close>

text \<open>The calls to \<^verbatim>\<open>onTrack\<close> among the calls of a worker: \<open>traceStackOTF\<close> adds none, and
  each pass of the loop over the polar angles adds one.\<close>

lemma appends_long_no_OnTrack:
  "appends_long env kern kern' \<Longrightarrow> filter is_OnTrack kern' = filter is_OnTrack kern"
proof -
  assume "appends_long env kern kern'"
  then obtain new where n: "kern' = kern @ new" "\<forall>c \<in> set new. is_Execute c"
    by (auto simp: appends_long_def)
  have "filter is_OnTrack new = []"
    using n(2) by (auto simp: filter_empty_conv elim: is_Execute.elims is_OnTrack.elims)
  with n(1) show ?thesis by simp
qed

lemma loopOverTracksByStackOTF_polar_calls:
  "snd (loopOverTracksByStackOTF_polar env kernels flattened_track p (tracks_3D, calls)) =
     (if kernels
      then traceStackOTF env flattened_track
             (tracks_3D (getAzimIndex flattened_track, getXYIndex flattened_track, p, 0)) p
             (calls @ [NewTrack (getAzimIndex flattened_track, getXYIndex flattened_track, p, 0)])
      else calls)
     @ [OnTrack (getAzimIndex flattened_track, getXYIndex flattened_track, p, 0)]"
  by (simp add: loopOverTracksByStackOTF_polar_def Let_def)

lemma loopOverTracksByStackOTF_polar_OnTrack:
  "filter is_OnTrack (snd (loopOverTracksByStackOTF_polar env kernels flattened_track p st)) =
     filter is_OnTrack (snd st)
     @ [OnTrack (getAzimIndex flattened_track, getXYIndex flattened_track, p, 0)]"
proof -
  obtain tracks_3D calls where st: "st = (tracks_3D, calls)" by (cases st)
  show ?thesis
    unfolding st loopOverTracksByStackOTF_polar_calls
    using appends_long_no_OnTrack[OF traceStackOTF_appends]
    by simp
qed

lemma loopOverTracksByStackOTF_OnTrack:
  "filter is_OnTrack (snd (loopOverTracksByStackOTF env num_2D_tracks flattened_tracks kernels st)) =
     filter is_OnTrack (snd st) @
     concat (map (\<lambda>ext_id.
               map (\<lambda>p. OnTrack (getAzimIndex (flattened_tracks ! nat ext_id),
                                  getXYIndex (flattened_tracks ! nat ext_id), p, 0))
                   [0..getNumPolar env - 1])
             [0..num_2D_tracks - 1])"
proof -
  have inner: "\<And>ft st. filter is_OnTrack (snd (for_loop 0 (getNumPolar env)
                  (loopOverTracksByStackOTF_polar env kernels ft) st)) =
        filter is_OnTrack (snd st) @
        concat (map (\<lambda>p. [OnTrack (getAzimIndex ft, getXYIndex ft, p, 0)]) [0..getNumPolar env - 1])"
    by (rule for_loop_collect[where g = "\<lambda>st. filter is_OnTrack (snd st)"])
       (rule loopOverTracksByStackOTF_polar_OnTrack)
  have cm: "\<And>f (xs :: int list). concat (map (\<lambda>p. [f p]) xs) = map f xs"
    by (induct_tac xs) auto
  show ?thesis
    unfolding loopOverTracksByStackOTF_def
    by (rule for_loop_collect[where g = "\<lambda>st. filter is_OnTrack (snd st)"])
       (simp add: Let_def inner cm)
qed

lemma length_concat_const:
  "(\<And>x. x \<in> set xs \<Longrightarrow> length (f x) = n) \<Longrightarrow> length (concat (map f xs)) = length xs * n"
  by (induction xs) auto

lemma loopOverTracksByStackOTF_count:
  "length (filter is_OnTrack (snd (loopOverTracksByStackOTF env num_2D_tracks flattened_tracks
       kernels (tracks_3D, calls)))) =
   length (filter is_OnTrack calls) + nat num_2D_tracks * nat (getNumPolar env)"
  by (simp add: loopOverTracksByStackOTF_OnTrack length_concat_const)


lemma ex_stack_run_from:
  "traceStackOTF ex_env ex_track ex_first 0 k =
     k @ [Execute (5 / 6) 0 10 0 (- 1) (- 1), Execute (5 / 4) 0 10 1 (- 1) (- 1),
          Execute (5 / 4) 0 10 2 (- 1) (- 1), Execute (5 / 6) 1 11 1 (- 1) (- 1),
          Execute (5 / 4) 1 11 2 (- 1) (- 1), Execute (5 / 4) 1 11 3 (- 1) (- 1)]"
  by (simp add: traceStackOTF_eval ex_defs)

lemma ex_loop_run:
  "snd (loopOverTracksByStackOTF ex_env 1 [ex_track] True (\<lambda>_. ex_first, [])) =
     [NewTrack (0, 0, 0, 0),
      Execute (5 / 6) 0 10 0 (- 1) (- 1), Execute (5 / 4) 0 10 1 (- 1) (- 1),
      Execute (5 / 4) 0 10 2 (- 1) (- 1), Execute (5 / 6) 1 11 1 (- 1) (- 1),
      Execute (5 / 4) 1 11 2 (- 1) (- 1), Execute (5 / 4) 1 11 3 (- 1) (- 1),
      OnTrack (0, 0, 0, 0)]"
proof -
  have np: "getNumPolar ex_env = 1" by (simp add: ex_env_def)
  have ix: "getAzimIndex ex_track = 0" "getXYIndex ex_track = 0" by (simp_all add: ex_track_def)
  show ?thesis
    by (simp add: loopOverTracksByStackOTF_def for_loop.simps Let_def np
          loopOverTracksByStackOTF_polar_calls ix ex_stack_run_from)
qed

text \<open>
  C1. The claim has \<open>loopOverTracksByStackOTF\<close> call \<^verbatim>\<open>onTrack\<close> once for every 3D track
  of each z-stack, that is \<^verbatim>\<open>tracks_per_stack[a][i][p]\<close> times for a flattened track and a
  polar angle. The description of the function in the source says the same (the
  \<^verbatim>\<open>onTrack(...)\<close> function ``is applied to all 3D Tracks''), and \<open>loopOverTracksByTrackOTF\<close>
  and \<open>loopOverTracksExplicit\<close> call it inside their loop over the stack index. The code of
  \<open>loopOverTracksByStackOTF\<close> does not: its loop body takes the first track of the stack,
  \<^verbatim>\<open>&tracks_3D[a][i][p][0]\<close>, and calls \<^verbatim>\<open>onTrack\<close> once, so that the number of calls is
  the number of flattened tracks times the number of polar angles, whatever the stacks hold
  (\<open>loopOverTracksByStackOTF_count\<close>). The run below has one flattened track, one polar angle
  and a stack of four tracks: the kernel receives the segments of the tracks 0 to 3 of the
  stack, and \<^verbatim>\<open>onTrack\<close> is called once, for the stack index 0, where the claim has four
  calls.
\<close>

theorem loopOverTracksByStackOTF_onTrack_once_for_stack_of_four:
  "getTracksPerStack ex_env (getAzimIndex ex_track) (getXYIndex ex_track) 0 = 4 \<and>
   snd (loopOverTracksByStackOTF ex_env 1 [ex_track] True (\<lambda>_. ex_first, [])) =
     [NewTrack (0, 0, 0, 0),
      Execute (5 / 6) 0 10 0 (- 1) (- 1), Execute (5 / 4) 0 10 1 (- 1) (- 1),
      Execute (5 / 4) 0 10 2 (- 1) (- 1), Execute (5 / 6) 1 11 1 (- 1) (- 1),
      Execute (5 / 4) 1 11 2 (- 1) (- 1), Execute (5 / 4) 1 11 3 (- 1) (- 1),
      OnTrack (0, 0, 0, 0)] \<and>
   filter is_OnTrack
      (snd (loopOverTracksByStackOTF ex_env 1 [ex_track] True (\<lambda>_. ex_first, []))) =
     [OnTrack (0, 0, 0, 0)] \<and>
   length (filter is_OnTrack
      (snd (loopOverTracksByStackOTF ex_env 1 [ex_track] True (\<lambda>_. ex_first, [])))) = 1 \<and>
   length (filter is_OnTrack
      (snd (loopOverTracksByStackOTF ex_env 1 [ex_track] True (\<lambda>_. ex_first, [])))) \<noteq>
     nat (getTracksPerStack ex_env (getAzimIndex ex_track) (getXYIndex ex_track) 0)"
  by (simp add: ex_loop_run) (simp add: ex_env_def)

section \<open>Properties of traceSegmentsOTF\<close>

text \<open>The three ways through one pass of the inner loop, and the range of the axial index
  it returns.\<close>

lemma traceSegmentsOTF_while_exit:
  assumes "0 < remaining_length_2D"
      and "traceSegmentsOTF_step env seg extruded_FSR axial_mesh cos_theta sin_theta sign
             remaining_length_2D z_ind z_coord kern = ((remaining_length_2D', z_ind', z_coord'), kern')"
      and "z_ind' < 0 \<or> num_fsrs \<le> z_ind'"
  shows "traceSegmentsOTF_while env seg extruded_FSR num_fsrs axial_mesh cos_theta sin_theta sign
           remaining_length_2D z_ind z_coord kern =
         Some ((if z_ind' < 0 then 0 else num_fsrs - 1, z_coord', True), kern')"
  using assms by (subst traceSegmentsOTF_while.simps) auto

lemma traceSegmentsOTF_while_continue:
  assumes "0 < remaining_length_2D"
      and "traceSegmentsOTF_step env seg extruded_FSR axial_mesh cos_theta sin_theta sign
             remaining_length_2D z_ind z_coord kern = ((remaining_length_2D', z_ind', z_coord'), kern')"
      and "0 \<le> z_ind'" "z_ind' < num_fsrs"
  shows "traceSegmentsOTF_while env seg extruded_FSR num_fsrs axial_mesh cos_theta sin_theta sign
           remaining_length_2D z_ind z_coord kern =
         traceSegmentsOTF_while env seg extruded_FSR num_fsrs axial_mesh cos_theta sin_theta sign
           remaining_length_2D' z_ind' z_coord' kern'"
  using assms by (subst traceSegmentsOTF_while.simps) auto

lemma traceSegmentsOTF_while_end:
  "\<not> 0 < remaining_length_2D \<Longrightarrow>
   traceSegmentsOTF_while env seg extruded_FSR num_fsrs axial_mesh cos_theta sin_theta sign
     remaining_length_2D z_ind z_coord kern = Some ((z_ind, z_coord, False), kern)"
  by (subst traceSegmentsOTF_while.simps) auto

lemma traceSegmentsOTF_while_index:
  assumes "traceSegmentsOTF_while env seg extruded_FSR num_fsrs axial_mesh cos_theta sin_theta sign
      remaining_length_2D z_ind z_coord kern = Some y"
  shows "0 \<le> z_ind \<and> z_ind < num_fsrs \<longrightarrow> 0 \<le> fst (fst y) \<and> fst (fst y) < num_fsrs"
proof (rule traceSegmentsOTF_while.raw_induct[where P = "\<lambda>env seg extruded_FSR num_fsrs axial_mesh
      cos_theta sin_theta sign remaining_length_2D z_ind z_coord kern y.
      0 \<le> z_ind \<and> z_ind < num_fsrs \<longrightarrow> 0 \<le> fst (fst y) \<and> fst (fst y) < num_fsrs", OF _ assms],
      goal_cases)
  case (1 w env seg extruded_FSR num_fsrs axial_mesh cos_theta sin_theta sign
      remaining_length_2D z_ind z_coord kern y)
  show ?case
  proof (cases "0 < remaining_length_2D")
    case False
    with 1(2) show ?thesis by auto
  next
    case True
    obtain rem' z' zc' k' where st: "traceSegmentsOTF_step env seg extruded_FSR axial_mesh
        cos_theta sin_theta sign remaining_length_2D z_ind z_coord kern = ((rem', z', zc'), k')"
      by (metis prod_cases3 surj_pair)
    show ?thesis
    proof (cases "z' < 0 \<or> num_fsrs \<le> z'")
      case True
      with 1(2) \<open>0 < remaining_length_2D\<close> st show ?thesis by auto
    next
      case False
      with 1(2) \<open>0 < remaining_length_2D\<close> st
      have "w env seg extruded_FSR num_fsrs axial_mesh cos_theta sin_theta sign rem' z' zc' k'
            = Some y" by simp
      from 1(1)[OF this] False show ?thesis by auto
    qed
  qed
qed

text \<open>
  C7. In \<open>traceSegmentsOTF\<close>, when a pass of the inner loop moves the axial index outside
  \<open>[0, num_fsrs - 1]\<close>, the loop ends at once with the index set to 0 (when below) or to
  \<open>num_fsrs - 1\<close> (when above) and \<^verbatim>\<open>segments_complete\<close> set, and the loop over the 2D segments
  ends with the kernel as that pass left it: no further 2D segment is processed and no
  further 3D segment goes to the kernel. The index the inner loop returns is always in range.
\<close>

theorem traceSegmentsOTF_stops_at_axial_boundary:
  "(0 < remaining_length_2D \<and>
    traceSegmentsOTF_step env seg extruded_FSR axial_mesh cos_theta sin_theta sign
      remaining_length_2D z_ind z_coord kern = ((remaining_length_2D', z_ind', z_coord'), kern') \<and>
    (z_ind' < 0 \<or> num_fsrs \<le> z_ind') \<longrightarrow>
      traceSegmentsOTF_while env seg extruded_FSR num_fsrs axial_mesh cos_theta sin_theta sign
        remaining_length_2D z_ind z_coord kern =
      Some ((if z_ind' < 0 then 0 else num_fsrs - 1, z_coord', True), kern')) \<and>
   (s < num_segments \<and>
    traceSegmentsOTF_mesh (getExtrudedFSR env (seg_region_id (segments_2D ! nat s)))
      first_segment contains_global_z_mesh sign z_coord0 num_fsrs0 axial_mesh0 z_ind0
      = Inr (num_fsrs1, axial_mesh1, z_ind1) \<and>
    traceSegmentsOTF_while env (segments_2D ! nat s)
      (getExtrudedFSR env (seg_region_id (segments_2D ! nat s))) num_fsrs1 axial_mesh1
      cos_theta sin_theta sign (seg_length (segments_2D ! nat s) - start_dist_2D) z_ind1 z_coord0
      kern0 = Some ((z_ind2, z_coord2, True), kern2) \<longrightarrow>
      traceSegmentsOTF_segments env segments_2D num_segments contains_global_z_mesh cos_theta
        sin_theta sign s first_segment num_fsrs0 axial_mesh0 z_ind0 z_coord0 start_dist_2D kern0
      = Some (AxialExit, kern2)) \<and>
   (0 \<le> z_ind \<and> z_ind < num_fsrs \<and>
    traceSegmentsOTF_while env seg extruded_FSR num_fsrs axial_mesh cos_theta sin_theta sign
      remaining_length_2D z_ind z_coord kern = Some ((z_ind3, z_coord3, segments_complete), kern3)
    \<longrightarrow> 0 \<le> z_ind3 \<and> z_ind3 < num_fsrs)"
proof -
  have one: "0 < remaining_length_2D \<and>
    traceSegmentsOTF_step env seg extruded_FSR axial_mesh cos_theta sin_theta sign
      remaining_length_2D z_ind z_coord kern = ((remaining_length_2D', z_ind', z_coord'), kern') \<and>
    (z_ind' < 0 \<or> num_fsrs \<le> z_ind') \<longrightarrow>
      traceSegmentsOTF_while env seg extruded_FSR num_fsrs axial_mesh cos_theta sin_theta sign
        remaining_length_2D z_ind z_coord kern =
      Some ((if z_ind' < 0 then 0 else num_fsrs - 1, z_coord', True), kern')"
    using traceSegmentsOTF_while_exit by blast
  have two: "s < num_segments \<and>
    traceSegmentsOTF_mesh (getExtrudedFSR env (seg_region_id (segments_2D ! nat s)))
      first_segment contains_global_z_mesh sign z_coord0 num_fsrs0 axial_mesh0 z_ind0
      = Inr (num_fsrs1, axial_mesh1, z_ind1) \<and>
    traceSegmentsOTF_while env (segments_2D ! nat s)
      (getExtrudedFSR env (seg_region_id (segments_2D ! nat s))) num_fsrs1 axial_mesh1
      cos_theta sin_theta sign (seg_length (segments_2D ! nat s) - start_dist_2D) z_ind1 z_coord0
      kern0 = Some ((z_ind2, z_coord2, True), kern2) \<longrightarrow>
      traceSegmentsOTF_segments env segments_2D num_segments contains_global_z_mesh cos_theta
        sin_theta sign s first_segment num_fsrs0 axial_mesh0 z_ind0 z_coord0 start_dist_2D kern0
      = Some (AxialExit, kern2)"
    using traceSegmentsOTF_segments_next[of s num_segments env segments_2D first_segment
            contains_global_z_mesh sign z_coord0 num_fsrs0 axial_mesh0 z_ind0 num_fsrs1
            axial_mesh1 z_ind1 cos_theta sin_theta start_dist_2D kern0 z_ind2 z_coord2 True kern2]
    by simp
  have three: "0 \<le> z_ind \<and> z_ind < num_fsrs \<and>
    traceSegmentsOTF_while env seg extruded_FSR num_fsrs axial_mesh cos_theta sin_theta sign
      remaining_length_2D z_ind z_coord kern = Some ((z_ind3, z_coord3, segments_complete), kern3)
    \<longrightarrow> 0 \<le> z_ind3 \<and> z_ind3 < num_fsrs"
    using traceSegmentsOTF_while_index[of env seg extruded_FSR num_fsrs axial_mesh cos_theta
            sin_theta sign remaining_length_2D z_ind z_coord kern
            "((z_ind3, z_coord3, segments_complete), kern3)"]
    by simp
  from one two three show ?thesis by blast
qed

lemma ex_step_run:
  "traceSegmentsOTF_step ex_env (getSegments ex_track ! 0) ex_fsr [0, 1, 2] (4 / 5) (3 / 5) 1
     (13 / 8) 1 1 [Execute (5 / 8) 0 10 0 (- 1) (- 1)] =
   ((7 / 8, 2, 2), [Execute (5 / 8) 0 10 0 (- 1) (- 1), Execute (5 / 4) 1 11 0 (- 1) (- 1)])"
  by (simp add: traceSegmentsOTF_step_def Let_def ex_env_def ex_track_def ex_fsr_def)

lemma ex_while_run:
  "traceSegmentsOTF_while ex_env (getSegments ex_track ! 0) ex_fsr 2 [0, 1, 2] (4 / 5) (3 / 5) 1
     2 0 (1 / 2) [] =
   Some ((1, 2, True), [Execute (5 / 8) 0 10 0 (- 1) (- 1), Execute (5 / 4) 1 11 0 (- 1) (- 1)])"
  by (simp add: traceSegmentsOTF_while.simps traceSegmentsOTF_step_def Let_def ex_env_def
        ex_track_def ex_fsr_def)

theorem traceSegmentsOTF_stops_at_axial_boundary_witness:
  "traceSegmentsOTF_step ex_env (getSegments ex_track ! 0) ex_fsr [0, 1, 2] (4 / 5) (3 / 5) 1
     (13 / 8) 1 1 [Execute (5 / 8) 0 10 0 (- 1) (- 1)] =
   ((7 / 8, 2, 2), [Execute (5 / 8) 0 10 0 (- 1) (- 1), Execute (5 / 4) 1 11 0 (- 1) (- 1)]) \<and>
   traceSegmentsOTF_while ex_env (getSegments ex_track ! 0) ex_fsr 2 [0, 1, 2] (4 / 5) (3 / 5) 1
     (13 / 8) 1 1 [Execute (5 / 8) 0 10 0 (- 1) (- 1)] =
   Some ((1, 2, True), [Execute (5 / 8) 0 10 0 (- 1) (- 1), Execute (5 / 4) 1 11 0 (- 1) (- 1)]) \<and>
   traceSegmentsOTF_while ex_env (getSegments ex_track ! 0) ex_fsr 2 [0, 1, 2] (4 / 5) (3 / 5) 1
     2 0 (1 / 2) [] =
   Some ((1, 2, True), [Execute (5 / 8) 0 10 0 (- 1) (- 1), Execute (5 / 4) 1 11 0 (- 1) (- 1)]) \<and>
   traceSegmentsOTF_segments ex_env (getSegments ex_track) 1 True (4 / 5) (3 / 5) 1 0 True 2
     [0, 1, 2] 0 (1 / 2) 0 [] =
   Some (AxialExit, [Execute (5 / 8) 0 10 0 (- 1) (- 1), Execute (5 / 4) 1 11 0 (- 1) (- 1)])"
proof -
  note t = traceSegmentsOTF_stops_at_axial_boundary[of "13 / 8" ex_env "getSegments ex_track ! 0"
      ex_fsr "[0, 1, 2]" "4 / 5" "3 / 5" 1 1 1 "[Execute (5 / 8) 0 10 0 (- 1) (- 1)]"
      "7 / 8" 2 2 "[Execute (5 / 8) 0 10 0 (- 1) (- 1), Execute (5 / 4) 1 11 0 (- 1) (- 1)]"
      2 0 1 "getSegments ex_track" True True "1 / 2" 2 "[0, 1, 2]" 0 2 "[0, 1, 2]" 0 0 "[]"
      1 2 "[Execute (5 / 8) 0 10 0 (- 1) (- 1), Execute (5 / 4) 1 11 0 (- 1) (- 1)]"]
  have m: "traceSegmentsOTF_mesh (getExtrudedFSR ex_env (seg_region_id (getSegments ex_track ! nat 0)))
      True True 1 (1 / 2) 2 [0, 1, 2] 0 = Inr (2, [0, 1, 2], 0)"
    by (simp add: traceSegmentsOTF_mesh_def)
  have w: "traceSegmentsOTF_while ex_env (getSegments ex_track ! nat 0)
      (getExtrudedFSR ex_env (seg_region_id (getSegments ex_track ! nat 0))) 2 [0, 1, 2]
      (4 / 5) (3 / 5) 1 (seg_length (getSegments ex_track ! nat 0) - 0) 0 (1 / 2) [] =
      Some ((1, 2, True), [Execute (5 / 8) 0 10 0 (- 1) (- 1), Execute (5 / 4) 1 11 0 (- 1) (- 1)])"
    using ex_while_run by (simp add: ex_env_def ex_track_def)
  from t ex_step_run m w ex_while_run show ?thesis by simp
qed

text \<open>
  One pass of the inner loop, for a track that is neither vertical nor horizontal and stands
  in its mesh cell: it advances by a distance \<open>d\<close> between 0 and what is left of the 2D
  segment, passes \<open>d\<close> to the kernel when it is above \<^verbatim>\<open>TINY_MOVE\<close>, and either ends the 2D
  segment inside the cell or stands on the boundary of the next cell.
\<close>

lemma traceSegmentsOTF_step_char:
  assumes "traceSegmentsOTF_step env seg extruded_FSR axial_mesh cos_theta sin_theta sign
             remaining_length_2D z_ind z_coord kern = ((remaining_length_2D', z_ind', z_coord'), kern')"
  shows "\<exists>d. (if (if sign > 0 then (axial_mesh ! nat (z_ind + 1) - z_coord) / cos_theta
                    else (axial_mesh ! nat z_ind - z_coord) / cos_theta)
                   \<le> remaining_length_2D / sin_theta
              then d = (if sign > 0 then (axial_mesh ! nat (z_ind + 1) - z_coord) / cos_theta
                        else (axial_mesh ! nat z_ind - z_coord) / cos_theta) \<and>
                   remaining_length_2D' = remaining_length_2D - d * sin_theta \<and>
                   z_ind' = z_ind + sign
              else d = remaining_length_2D / sin_theta \<and> remaining_length_2D' = 0 \<and>
                   z_ind' = z_ind) \<and>
             z_coord' = z_coord + cos_theta * d \<and>
             (if TINY_MOVE env < d then \<exists>m r f b. kern' = kern @ [Execute d m r 0 f b]
              else kern' = kern)"
proof -
  define zd where "zd = (if sign > 0 then (axial_mesh ! nat (z_ind + 1) - z_coord) / cos_theta
                         else (axial_mesh ! nat z_ind - z_coord) / cos_theta)"
  define sd where "sd = remaining_length_2D / sin_theta"
  define d where "d = (if zd \<le> sd then zd else sd)"
  let ?st = "traceSegmentsOTF_step env seg extruded_FSR axial_mesh cos_theta sin_theta sign
             remaining_length_2D z_ind z_coord kern"
  have r1: "fst (fst ?st) = (if zd \<le> sd then remaining_length_2D - zd * sin_theta else 0)"
    by (cases "zd \<le> sd")
       (simp_all add: traceSegmentsOTF_step_def Let_def split_beta zd_def[symmetric] sd_def[symmetric])
  have r2: "fst (snd (fst ?st)) = (if zd \<le> sd then z_ind + sign else z_ind)"
    by (cases "zd \<le> sd")
       (simp_all add: traceSegmentsOTF_step_def Let_def split_beta zd_def[symmetric] sd_def[symmetric])
  have r3: "snd (snd (fst ?st)) = z_coord + cos_theta * d"
    by (cases "zd \<le> sd"; cases "getCmfd env")
       (simp_all add: traceSegmentsOTF_step_def Let_def split_beta zd_def[symmetric]
          sd_def[symmetric] d_def mult.commute)
  have r4: "if TINY_MOVE env < d then \<exists>m r f b. snd ?st = kern @ [Execute d m r 0 f b]
            else snd ?st = kern"
    by (cases "zd \<le> sd")
       (simp_all add: traceSegmentsOTF_step_def Let_def split_beta zd_def[symmetric]
          sd_def[symmetric] d_def)
  have "(if zd \<le> sd then d = zd \<and> remaining_length_2D' = remaining_length_2D - d * sin_theta \<and>
                          z_ind' = z_ind + sign
         else d = sd \<and> remaining_length_2D' = 0 \<and> z_ind' = z_ind) \<and>
        z_coord' = z_coord + cos_theta * d \<and>
        (if TINY_MOVE env < d then \<exists>m r f b. kern' = kern @ [Execute d m r 0 f b]
         else kern' = kern)"
  proof -
    have e: "fst (fst ?st) = remaining_length_2D'" "fst (snd (fst ?st)) = z_ind'"
            "snd (snd (fst ?st)) = z_coord'" "snd ?st = kern'"
      using assms by simp_all
    show ?thesis
      using r1[unfolded e] r2[unfolded e] r3[unfolded e] r4[unfolded e]
      by (cases "zd \<le> sd") (simp_all add: d_def)
  qed
  then show ?thesis unfolding zd_def sd_def by blast
qed


lemma mesh_ok_mono:
  assumes "mesh_ok axial_mesh num_fsrs" "0 \<le> i" "i \<le> j" "j \<le> num_fsrs"
  shows "axial_mesh ! nat i \<le> axial_mesh ! nat j"
proof (cases "i = j")
  case True then show ?thesis by simp
next
  case False
  then have "nat i < nat j" "nat j < length axial_mesh"
    using assms by (auto simp: mesh_ok_def)
  moreover have "sorted_wrt (<) axial_mesh" using assms(1) by (simp add: mesh_ok_def)
  ultimately have "axial_mesh ! nat i < axial_mesh ! nat j" by (simp add: sorted_wrt_nth_less)
  then show ?thesis by simp
qed

lemma traceSegmentsOTF_step_in_cell:
  assumes ang: "0 < sin_theta" "(0 < cos_theta \<and> sign = 1) \<or> (cos_theta < 0 \<and> sign = - 1)"
      and mesh: "mesh_ok axial_mesh num_fsrs"
      and cell: "in_cell axial_mesh num_fsrs z_ind z_coord"
      and pos: "0 < remaining_length_2D"
      and st: "traceSegmentsOTF_step env seg extruded_FSR axial_mesh cos_theta sin_theta sign
             remaining_length_2D z_ind z_coord kern = ((remaining_length_2D', z_ind', z_coord'), kern')"
  shows "\<exists>d. 0 \<le> d \<and> d \<le> remaining_length_2D / sin_theta \<and>
             remaining_length_2D' = remaining_length_2D - d * sin_theta \<and>
             0 \<le> remaining_length_2D' \<and>
             (if TINY_MOVE env < d then \<exists>m r f b. kern' = kern @ [Execute d m r 0 f b]
              else kern' = kern) \<and>
             ((z_ind' = z_ind \<and> remaining_length_2D' = 0 \<and>
               in_cell axial_mesh num_fsrs z_ind z_coord') \<or>
              (z_ind' = z_ind + sign \<and>
               (z_ind' < 0 \<or> num_fsrs \<le> z_ind' \<or> in_cell axial_mesh num_fsrs z_ind' z_coord')))"
proof -
  define zd where "zd = (if sign > 0 then (axial_mesh ! nat (z_ind + 1) - z_coord) / cos_theta
                         else (axial_mesh ! nat z_ind - z_coord) / cos_theta)"
  define sd where "sd = remaining_length_2D / sin_theta"
  from traceSegmentsOTF_step_char[OF st, folded zd_def sd_def]
  obtain d where d:
    "if zd \<le> sd then d = zd \<and> remaining_length_2D' = remaining_length_2D - d * sin_theta \<and>
                      z_ind' = z_ind + sign
     else d = sd \<and> remaining_length_2D' = 0 \<and> z_ind' = z_ind"
    "z_coord' = z_coord + cos_theta * d"
    "if TINY_MOVE env < d then \<exists>m r f b. kern' = kern @ [Execute d m r 0 f b] else kern' = kern"
    by blast
  have zr: "0 \<le> z_ind" "z_ind < num_fsrs" "axial_mesh ! nat z_ind \<le> z_coord"
           "z_coord \<le> axial_mesh ! nat (z_ind + 1)"
    using cell by (simp_all add: in_cell_def)
  have c0: "cos_theta \<noteq> 0" using ang by auto
  have sd_pos: "0 < sd" using pos ang(1) by (simp add: sd_def)
  have sd_sin: "sd * sin_theta = remaining_length_2D" using ang(1) by (simp add: sd_def)
  have zd_nonneg: "0 \<le> zd"
    using ang(2) zr by (auto simp: zd_def intro: divide_nonneg_pos divide_nonpos_neg)
  have zd_cos: "cos_theta * zd = (if sign > 0 then axial_mesh ! nat (z_ind + 1) - z_coord
                                  else axial_mesh ! nat z_ind - z_coord)"
    using c0 by (simp add: zd_def)
  show ?thesis
  proof (cases "zd \<le> sd")
    case True
    then have dz: "d = zd" "remaining_length_2D' = remaining_length_2D - zd * sin_theta"
      "z_ind' = z_ind + sign" using d(1) by simp_all
    have "zd * sin_theta \<le> sd * sin_theta"
      using True ang(1) by (simp add: mult_right_mono)
    then have rem': "0 \<le> remaining_length_2D'" using dz(2) sd_sin by simp
    have zc': "z_coord' = (if sign > 0 then axial_mesh ! nat (z_ind + 1) else axial_mesh ! nat z_ind)"
      using d(2) dz(1) zd_cos by simp
    have nxt: "z_ind' < 0 \<or> num_fsrs \<le> z_ind' \<or> in_cell axial_mesh num_fsrs z_ind' z_coord'"
    proof (cases "z_ind' < 0 \<or> num_fsrs \<le> z_ind'")
      case True then show ?thesis by blast
    next
      case False
      then have r: "0 \<le> z_ind'" "z_ind' < num_fsrs" by auto
      from ang(2) show ?thesis
      proof
        assume a: "0 < cos_theta \<and> sign = 1"
        then have "z_coord' = axial_mesh ! nat z_ind'" using zc' dz(3) by simp
        moreover have "axial_mesh ! nat z_ind' \<le> axial_mesh ! nat (z_ind' + 1)"
          using mesh_ok_mono[OF mesh, of z_ind' "z_ind' + 1"] r by simp
        ultimately show ?thesis using r by (simp add: in_cell_def)
      next
        assume a: "cos_theta < 0 \<and> sign = - 1"
        then have "z_coord' = axial_mesh ! nat (z_ind' + 1)" using zc' dz(3) by simp
        moreover have "axial_mesh ! nat z_ind' \<le> axial_mesh ! nat (z_ind' + 1)"
          using mesh_ok_mono[OF mesh, of z_ind' "z_ind' + 1"] r by simp
        ultimately show ?thesis using r by (simp add: in_cell_def)
      qed
    qed
    show ?thesis
      using zd_nonneg True dz rem' d(3)[unfolded dz(1)] nxt
      by (intro exI[of _ zd]) (simp add: sd_def)
  next
    case False
    then have ds: "d = sd" "remaining_length_2D' = 0" "z_ind' = z_ind" using d(1) by simp_all
    have lt: "sd < zd" using False by simp
    have cellz: "in_cell axial_mesh num_fsrs z_ind z_coord'"
      using ang(2)
    proof
      assume a: "0 < cos_theta \<and> sign = 1"
      then have "cos_theta * sd < cos_theta * zd" using lt by simp
      then have up: "z_coord' < axial_mesh ! nat (z_ind + 1)"
        using d(2) ds(1) zd_cos a by simp
      have "0 \<le> cos_theta * sd" using a sd_pos by simp
      then have "z_coord \<le> z_coord'" using d(2) ds(1) by simp
      with up zr show ?thesis by (simp add: in_cell_def)
    next
      assume a: "cos_theta < 0 \<and> sign = - 1"
      then have "cos_theta * zd < cos_theta * sd" using lt by simp
      then have lo: "axial_mesh ! nat z_ind < z_coord'"
        using d(2) ds(1) zd_cos a by simp
      have "cos_theta * sd \<le> 0" using a sd_pos by (simp add: mult_nonpos_nonneg)
      then have "z_coord' \<le> z_coord" using d(2) ds(1) by simp
      with lo zr show ?thesis by (simp add: in_cell_def)
    qed
    show ?thesis
      using sd_pos ds d(3)[unfolded ds(1)] cellz sd_sin
      by (intro exI[of _ sd]) (simp add: sd_def)
  qed
qed


lemma sum_lengths_step:
  assumes "if TINY_MOVE env < d then \<exists>m r f b. kern' = kern @ [Execute d m r 0 f b]
           else kern' = kern"
      and "0 \<le> d" "0 \<le> TINY_MOVE env"
  shows "sum_lengths kern' \<le> sum_lengths kern + d"
    and "sum_lengths kern + d - TINY_MOVE env \<le> sum_lengths kern'"
    and "d \<le> TINY_MOVE env \<Longrightarrow> kern' = kern"
  using assms by (auto simp: sum_lengths_def split: if_splits)

lemma traceSegmentsOTF_while_sum:
  assumes ang: "0 < sin_theta" "(0 < cos_theta \<and> sign = 1) \<or> (cos_theta < 0 \<and> sign = - 1)"
      and mesh: "mesh_ok axial_mesh num_fsrs"
      and tiny: "0 \<le> TINY_MOVE env"
      and cell: "in_cell axial_mesh num_fsrs z_ind z_coord"
      and rem: "0 \<le> remaining_length_2D"
  shows "\<exists>z_ind' z_coord' fin kern'.
           traceSegmentsOTF_while env seg extruded_FSR num_fsrs axial_mesh cos_theta sin_theta sign
             remaining_length_2D z_ind z_coord kern = Some ((z_ind', z_coord', fin), kern') \<and>
           sum_lengths kern' \<le> sum_lengths kern + remaining_length_2D / sin_theta \<and>
           (\<not> fin \<longrightarrow> in_cell axial_mesh num_fsrs z_ind' z_coord' \<and>
              sum_lengths kern + remaining_length_2D / sin_theta
                - TINY_MOVE env * (real (nat (if sign > 0 then num_fsrs - 1 - z_ind else z_ind)) + 1)
              \<le> sum_lengths kern') \<and>
           (remaining_length_2D / sin_theta \<le> TINY_MOVE env \<longrightarrow> kern' = kern)"
  using cell rem
proof (induction "nat (if sign > 0 then num_fsrs - z_ind else z_ind + 1)"
       arbitrary: remaining_length_2D z_ind z_coord kern rule: less_induct)
  case less
  let ?cl = "\<lambda>z. real (nat (if sign > 0 then num_fsrs - 1 - z else z))"
  note cell = less.prems(1) and rem = less.prems(2)
  show ?case
  proof (cases "0 < remaining_length_2D")
    case False
    then have r0: "remaining_length_2D = 0" using rem by simp
    have "0 \<le> TINY_MOVE env * (?cl z_ind + 1)" using tiny by simp
    then show ?thesis
      using traceSegmentsOTF_while_end[OF False, of env seg extruded_FSR num_fsrs axial_mesh
              cos_theta sin_theta sign z_ind z_coord kern] cell r0
      by auto
  next
    case True
    obtain rem' z' zc' k1 where st: "traceSegmentsOTF_step env seg extruded_FSR axial_mesh
        cos_theta sin_theta sign remaining_length_2D z_ind z_coord kern = ((rem', z', zc'), k1)"
      by (metis prod_cases3 surj_pair)
    from traceSegmentsOTF_step_in_cell[OF ang mesh cell True st]
    obtain d where d: "0 \<le> d" "d \<le> remaining_length_2D / sin_theta"
      "rem' = remaining_length_2D - d * sin_theta" "0 \<le> rem'"
      "if TINY_MOVE env < d then \<exists>m r f b. k1 = kern @ [Execute d m r 0 f b] else k1 = kern"
      and mv: "(z' = z_ind \<and> rem' = 0 \<and> in_cell axial_mesh num_fsrs z_ind zc') \<or>
               (z' = z_ind + sign \<and>
                (z' < 0 \<or> num_fsrs \<le> z' \<or> in_cell axial_mesh num_fsrs z' zc'))"
      by blast
    note sl = sum_lengths_step[OF d(5) d(1) tiny]
    have remdiv: "rem' / sin_theta = remaining_length_2D / sin_theta - d"
      using ang(1) d(3) by (simp add: diff_divide_distrib)
    have zr: "0 \<le> z_ind" "z_ind < num_fsrs" using cell by (simp_all add: in_cell_def)
    have cl_nonneg: "0 \<le> TINY_MOVE env * ?cl z_ind" using tiny by simp
    consider (stay) "z' = z_ind" "rem' = 0" "in_cell axial_mesh num_fsrs z_ind zc'"
      | (out) "z' = z_ind + sign" "z' < 0 \<or> num_fsrs \<le> z'"
      | (move) "z' = z_ind + sign" "0 \<le> z'" "z' < num_fsrs" "in_cell axial_mesh num_fsrs z' zc'"
      using mv by (auto simp: in_cell_def)
    then show ?thesis
    proof cases
      case stay
      have w: "traceSegmentsOTF_while env seg extruded_FSR num_fsrs axial_mesh cos_theta sin_theta
                 sign remaining_length_2D z_ind z_coord kern = Some ((z_ind, zc', False), k1)"
        using traceSegmentsOTF_while_continue[OF True st] stay zr
              traceSegmentsOTF_while_end[of rem' env seg extruded_FSR num_fsrs axial_mesh cos_theta
                sin_theta sign z' zc' k1]
        by simp
      have deq: "d = remaining_length_2D / sin_theta" using remdiv stay(2) by simp
      have lo: "sum_lengths kern + remaining_length_2D / sin_theta
                 - TINY_MOVE env * (?cl z_ind + 1) \<le> sum_lengths k1"
        using sl(2) deq cl_nonneg by (simp add: algebra_simps)
      show ?thesis
        using w sl(1) sl(3) deq stay(3) lo by auto
    next
      case out
      have w: "traceSegmentsOTF_while env seg extruded_FSR num_fsrs axial_mesh cos_theta sin_theta
                 sign remaining_length_2D z_ind z_coord kern =
               Some ((if z' < 0 then 0 else num_fsrs - 1, zc', True), k1)"
        by (rule traceSegmentsOTF_while_exit[OF True st out(2)])
      have "sum_lengths k1 \<le> sum_lengths kern + remaining_length_2D / sin_theta"
        using sl(1) d(2) by simp
      moreover have "remaining_length_2D / sin_theta \<le> TINY_MOVE env \<longrightarrow> k1 = kern"
        using sl(3) d(2) by simp
      ultimately show ?thesis using w by auto
    next
      case move
      have w: "traceSegmentsOTF_while env seg extruded_FSR num_fsrs axial_mesh cos_theta sin_theta
                 sign remaining_length_2D z_ind z_coord kern =
               traceSegmentsOTF_while env seg extruded_FSR num_fsrs axial_mesh cos_theta sin_theta
                 sign rem' z' zc' k1"
        by (rule traceSegmentsOTF_while_continue[OF True st move(2,3)])
      have less': "nat (if sign > 0 then num_fsrs - z' else z' + 1)
                   < nat (if sign > 0 then num_fsrs - z_ind else z_ind + 1)"
        using move(1-3) ang(2) by auto
      from less.hyps[OF less' move(4) d(4), of k1]
      obtain zf zcf fin kf where
        r: "traceSegmentsOTF_while env seg extruded_FSR num_fsrs axial_mesh cos_theta sin_theta
              sign rem' z' zc' k1 = Some ((zf, zcf, fin), kf)"
           "sum_lengths kf \<le> sum_lengths k1 + rem' / sin_theta"
           "\<not> fin \<longrightarrow> in_cell axial_mesh num_fsrs zf zcf \<and>
              sum_lengths k1 + rem' / sin_theta - TINY_MOVE env * (?cl z' + 1) \<le> sum_lengths kf"
           "rem' / sin_theta \<le> TINY_MOVE env \<longrightarrow> kf = k1"
        by blast
      have cl: "?cl z' + 1 = ?cl z_ind" using move(1-3) ang(2) zr by auto
      have up: "sum_lengths kf \<le> sum_lengths kern + remaining_length_2D / sin_theta"
        using r(2) sl(1) remdiv by simp
      have lo: "\<not> fin \<longrightarrow> sum_lengths kern + remaining_length_2D / sin_theta
                 - TINY_MOVE env * (?cl z_ind + 1) \<le> sum_lengths kf"
      proof
        assume "\<not> fin"
        with r(3) have "sum_lengths k1 + rem' / sin_theta - TINY_MOVE env * ?cl z_ind
                        \<le> sum_lengths kf" by (simp add: cl)
        with sl(2) remdiv show "sum_lengths kern + remaining_length_2D / sin_theta
                 - TINY_MOVE env * (?cl z_ind + 1) \<le> sum_lengths kf"
          by (simp add: algebra_simps)
      qed
      have same: "remaining_length_2D / sin_theta \<le> TINY_MOVE env \<longrightarrow> kf = kern"
        using r(4) sl(3) remdiv d(1,2) by auto
      show ?thesis unfolding w using r(1) r(3) up lo same by auto
    qed
  qed
qed


text \<open>
  C9, as stated, fails: the guard compares the 3D length with \<^verbatim>\<open>TINY_MOVE\<close>, and the 3D
  length of a 2D segment is its length over \<open>sin \<theta>\<close>. A 2D segment of length \<open>9 \<cdot> 10\<^sup>-\<^sup>9\<close>,
  below the tolerance \<open>10\<^sup>-\<^sup>8\<close>, gives one 3D segment of length \<open>1.5 \<cdot> 10\<^sup>-\<^sup>8\<close>.
\<close>

theorem traceSegmentsOTF_short_2D_segment_counterexample:
  "seg_length (getSegments ex_short_track ! 0) < TINY_MOVE ex_env \<and>
   traceSegmentsOTF ex_env ex_short_track (Point 0 0 (1 / 2)) ex_theta [] =
     Some (Completed, [Execute (3 / 200000000) 0 10 0 (- 1) (- 1)]) \<and>
   TINY_MOVE ex_env < 3 / 200000000"
  by (simp add: traceSegmentsOTF_eval ex_defs ex_short_track_def)

text \<open>
  C9, amended. A 2D segment whose 3D length (its length over \<open>sin \<theta>\<close>) does not exceed
  \<^verbatim>\<open>TINY_MOVE\<close> gives no 3D segment at all: the inner loop of \<open>traceSegmentsOTF\<close> ends and
  leaves the kernel as it was, for a track with \<open>sin \<theta> > 0\<close> and \<open>cos \<theta> \<noteq> 0\<close> that stands in
  its cell of a strictly increasing mesh. And whatever the 2D segment, every 3D segment the
  inner loop passes to the kernel is longer than \<^verbatim>\<open>TINY_MOVE\<close>.
\<close>

theorem traceSegmentsOTF_short_3D_length_emits_nothing:
  assumes "0 < sin_theta" "(0 < cos_theta \<and> sign = 1) \<or> (cos_theta < 0 \<and> sign = - 1)"
      and "mesh_ok axial_mesh num_fsrs" "0 \<le> TINY_MOVE env"
      and "in_cell axial_mesh num_fsrs z_ind z_coord"
      and "0 \<le> start_dist_2D" "start_dist_2D \<le> seg_length seg"
      and "seg_length seg / sin_theta \<le> TINY_MOVE env"
  shows "(\<exists>z_ind' z_coord' segments_complete.
           traceSegmentsOTF_while env seg extruded_FSR num_fsrs axial_mesh cos_theta sin_theta sign
             (seg_length seg - start_dist_2D) z_ind z_coord kern =
           Some ((z_ind', z_coord', segments_complete), kern)) \<and>
         (\<forall>seg0 remaining_length_2D z_ind0 z_coord0 kern0 r kern'.
            traceSegmentsOTF_while env seg0 extruded_FSR num_fsrs axial_mesh cos_theta sin_theta
              sign remaining_length_2D z_ind0 z_coord0 kern0 = Some (r, kern') \<longrightarrow>
            (\<exists>new. kern' = kern0 @ new \<and>
                   (\<forall>c \<in> set new. is_Execute c \<and> TINY_MOVE env < execute_length c)))"
proof -
  have rem: "0 \<le> seg_length seg - start_dist_2D" using assms(7) by simp
  have "(seg_length seg - start_dist_2D) / sin_theta \<le> seg_length seg / sin_theta"
    using assms(1,6) by (simp add: divide_right_mono)
  then have short: "(seg_length seg - start_dist_2D) / sin_theta \<le> TINY_MOVE env"
    using assms(8) by simp
  from traceSegmentsOTF_while_sum[OF assms(1-5) rem, of seg extruded_FSR kern] short
  have none: "\<exists>z_ind' z_coord' segments_complete.
           traceSegmentsOTF_while env seg extruded_FSR num_fsrs axial_mesh cos_theta sin_theta sign
             (seg_length seg - start_dist_2D) z_ind z_coord kern =
           Some ((z_ind', z_coord', segments_complete), kern)"
    by blast
  have long: "\<forall>seg0 remaining_length_2D z_ind0 z_coord0 kern0 r kern'.
            traceSegmentsOTF_while env seg0 extruded_FSR num_fsrs axial_mesh cos_theta sin_theta
              sign remaining_length_2D z_ind0 z_coord0 kern0 = Some (r, kern') \<longrightarrow>
            (\<exists>new. kern' = kern0 @ new \<and>
                   (\<forall>c \<in> set new. is_Execute c \<and> TINY_MOVE env < execute_length c))"
    using traceSegmentsOTF_while_appends by (fastforce simp: appends_long_def)
  from none long show ?thesis by blast
qed

theorem traceSegmentsOTF_short_3D_length_emits_nothing_witness:
  "(0::real) < 3 / 5 \<and> (0::real) < 4 / 5 \<and> mesh_ok [0, 1, 2] 2 \<and> 0 \<le> TINY_MOVE ex_env \<and>
   in_cell [0, 1, 2] 2 0 (1 / 2) \<and> (0::real) \<le> seg_length ex_tiny_segment \<and>
   seg_length ex_tiny_segment / (3 / 5) \<le> TINY_MOVE ex_env \<and>
   (\<exists>z_ind' z_coord' segments_complete.
      traceSegmentsOTF_while ex_env ex_tiny_segment ex_fsr 2 [0, 1, 2] (4 / 5) (3 / 5) 1
        (seg_length ex_tiny_segment - 0) 0 (1 / 2) [] =
      Some ((z_ind', z_coord', segments_complete), [])) \<and>
   traceSegmentsOTF_while ex_env (getSegments ex_track ! 0) ex_fsr 2 [0, 1, 2] (4 / 5) (3 / 5) 1
     2 0 (1 / 2) [] =
   Some ((1, 2, True), [Execute (5 / 8) 0 10 0 (- 1) (- 1), Execute (5 / 4) 1 11 0 (- 1) (- 1)]) \<and>
   TINY_MOVE ex_env < execute_length (Execute (5 / 8) 0 10 0 (- 1) (- 1))"
proof -
  have h: "(0::real) < 3 / 5" "(0 < (4 / 5 :: real) \<and> (1::int) = 1) \<or> ((4 / 5 :: real) < 0 \<and> (1::int) = - 1)"
    "mesh_ok [0, 1, 2] 2" "0 \<le> TINY_MOVE ex_env" "in_cell [0, 1, 2] 2 0 (1 / 2)"
    "(0::real) \<le> 0" "0 \<le> seg_length ex_tiny_segment"
    "seg_length ex_tiny_segment / (3 / 5) \<le> TINY_MOVE ex_env"
    by (simp_all add: mesh_ok_def in_cell_def ex_env_def ex_tiny_segment_def)
  note t = traceSegmentsOTF_short_3D_length_emits_nothing[OF h, of ex_fsr "[]"]
  from t ex_while_run
  have "\<forall>c \<in> set [Execute (5 / 8) 0 10 0 (- 1) (- 1), Execute (5 / 4) 1 11 0 (- 1) (- 1)].
          is_Execute c \<and> TINY_MOVE ex_env < execute_length c"
    by (metis append_Nil)
  with t h ex_while_run show ?thesis by simp
qed














end
